theory Spec2Isabelle
  imports Complex_Main "HOL-Library.Word" "HOL-Library.Log_Nat"
begin

section \<open>Machine numbers\<close>

text \<open>
  \<^verbatim>\<open>uint32_t\<close> is a 32-bit word. \<^verbatim>\<open>double\<close> is IEEE-754 binary64 under the default
  rounding mode (round to nearest, ties to even): a finite double is the rational number
  it denotes, and every arithmetic operation returns the exact result rounded to a
  53-bit significand. Only the normal range is modelled (no subnormals, no overflow),
  which covers every quotient and product of 32-bit values formed by the size policy.
\<close>

type_synonym u32 = "32 word"
type_synonym double = rat

text \<open>Round a rational to the nearest integer, ties to the even one.\<close>

definition rne :: "rat \<Rightarrow> int" where
  "rne s = (let f = \<lfloor>s\<rfloor>; d = s - of_int f in
     if d < 1 / 2 then f else if 1 / 2 < d then f + 1 else if even f then f else f + 1)"

text \<open>The binary exponent of a positive rational: \<open>2 powi ilog2 q \<le> q < 2 powi (ilog2 q + 1)\<close>.\<close>

definition ilog2 :: "rat \<Rightarrow> int" where
  "ilog2 q = (case quotient_of q of (a, b) \<Rightarrow>
     let d = bitlen a - bitlen b in if 2 powi d \<le> q then d else d - 1)"

text \<open>The double nearest to a rational: the significand is scaled into \<open>[2^52, 2^53)\<close>.\<close>

definition round_to_double :: "rat \<Rightarrow> double" where
  "round_to_double q = (if q = 0 then 0 else
     let e = ilog2 \<bar>q\<bar> - 52 in sgn q * of_int (rne (\<bar>q\<bar> / 2 powi e)) * 2 powi e)"

text \<open>\<^verbatim>\<open>static_cast<double>(v)\<close> of a \<^verbatim>\<open>uint32_t\<close> is exact.\<close>

definition u32_to_double :: "u32 \<Rightarrow> double" where
  "u32_to_double v = of_nat (unat v)"

text \<open>
  Division of doubles. \<open>None\<close> stands for a result that is not a finite number
  (\<open>0/0\<close> is NaN, \<open>a/0\<close> is an infinity).
\<close>

definition double_div :: "double \<Rightarrow> double \<Rightarrow> double option" where
  "double_div a b = (if b = 0 then None else Some (round_to_double (a / b)))"

definition double_mul :: "double \<Rightarrow> double \<Rightarrow> double" where
  "double_mul a b = round_to_double (a * b)"

text \<open>\<^verbatim>\<open>round\<close> of the C library: to the nearest integer, ties away from zero; exact.\<close>

definition c_round :: "double \<Rightarrow> double" where
  "c_round v = (if 0 \<le> v then of_int \<lfloor>v + 1 / 2\<rfloor> else - of_int \<lfloor>- v + 1 / 2\<rfloor>)"

text \<open>
  \<^verbatim>\<open>static_cast<uint32_t>(v)\<close> truncates towards zero; the behaviour is undefined
  (\<open>None\<close>) when the truncated value does not fit.
\<close>

definition double_to_u32 :: "double \<Rightarrow> u32 option" where
  "double_to_u32 v = (if - 1 < v \<and> v < 2 ^ 32
     then Some (word_of_int (if 0 \<le> v then \<lfloor>v\<rfloor> else \<lceil>v\<rceil>)) else None)"

text \<open>\<^verbatim>\<open>std::clamp<uint32_t>(v, lo, hi)\<close>.\<close>

definition clamp_u32 :: "u32 \<Rightarrow> u32 \<Rightarrow> u32 \<Rightarrow> u32" where
  "clamp_u32 v lo hi = (if v < lo then lo else if hi < v then hi else v)"

section \<open>Size policy\<close>

text \<open>
  \<^verbatim>\<open>video_denoising_instance::resize_nvidia_noise_removal\<close>. The result is \<open>None\<close>
  where the C++ has no defined result: \<open>x = y = 0\<close> divides zero by zero and casts the
  NaN to \<^verbatim>\<open>uint32_t\<close>.
\<close>

definition resize_nvidia_noise_removal :: "u32 \<Rightarrow> u32 \<Rightarrow> (u32 \<times> u32) option" where
  "resize_nvidia_noise_removal x y =
     (if x > y then
        (case double_div (u32_to_double y) (u32_to_double x) of
           None \<Rightarrow> None
         | Some ar \<Rightarrow>
             let rx = clamp_u32 x 142 1920 in
             (case double_to_u32 (c_round (double_mul (u32_to_double rx) ar)) of
                None \<Rightarrow> None
              | Some ry \<Rightarrow> Some (rx, ry)))
      else
        (case double_div (u32_to_double x) (u32_to_double y) of
           None \<Rightarrow> None
         | Some ar \<Rightarrow>
             let ry = clamp_u32 y 80 1080 in
             (case double_to_u32 (c_round (double_mul (u32_to_double ry) ar)) of
                None \<Rightarrow> None
              | Some rx \<Rightarrow> Some (rx, ry))))"


text \<open>
  The size policy as the specification words it, on natural numbers and with exact
  arithmetic: the dominant axis is clamped, the other one is
  \<open>round (clamped \<times> other / dominant)\<close>.
\<close>

definition size_policy_spec :: "nat \<Rightarrow> nat \<Rightarrow> nat \<times> nat" where
  "size_policy_spec w h =
     (if w > h then
        let cw = max 142 (min 1920 w) in (cw, nat (round (of_nat cw * of_nat h / of_nat w :: rat)))
      else
        let ch = max 80 (min 1080 h) in (nat (round (of_nat ch * of_nat w / of_nat h :: rat)), ch))"

text \<open>\<open>n\<close> is an integer nearest to \<open>r \<times> a / b\<close> (either neighbour at a tie).\<close>

definition nearest_scaled :: "nat \<Rightarrow> nat \<Rightarrow> nat \<Rightarrow> nat \<Rightarrow> bool" where
  "nearest_scaled n r a b \<longleftrightarrow> 2 * \<bar>int r * int a - int n * int b\<bar> \<le> int b"

text \<open>\<open>r \<times> a / b\<close> lies exactly half-way between two integers.\<close>

definition halfway :: "nat \<Rightarrow> nat \<Rightarrow> nat \<Rightarrow> bool" where
  "halfway r a b \<longleftrightarrow> (2 * r * a) mod (2 * b) = b"

section \<open>Providers and the registry\<close>

type_synonym denoise_provider = int

text \<open>
  Modelled from the spec: the enumeration \<^verbatim>\<open>denoise_provider\<close> is declared in
  \<^verbatim>\<open>filter-video-denoising.hpp\<close>, which is not among the sources. The settings schema
  gives its values: \<open>0\<close> is Automatic, \<open>1\<close> is NvidiaVideoNoiseRemoval. A provider is
  a 32-bit integer cast from the settings, so values outside the enumeration exist.
  The build is the one with \<^verbatim>\<open>ENABLE_FILTER_VIDEO_DENOISING_NVIDIA\<close> defined.
\<close>

definition AUTOMATIC :: denoise_provider where
  "AUTOMATIC = 0"

definition NVIDIA_VIDEO_NOISE_REMOVAL :: denoise_provider where
  "NVIDIA_VIDEO_NOISE_REMOVAL = 1"

definition provider_priority :: "denoise_provider list" where
  "provider_priority = [NVIDIA_VIDEO_NOISE_REMOVAL]"

datatype error = Runtime_error string | Sdk_unavailable | Null_dereference | Undefined_cast

text \<open>\<^verbatim>\<open>denoise_provider_to_string\<close>; the translation of a key is the key.\<close>

definition denoise_provider_to_string :: "denoise_provider \<Rightarrow> error + string" where
  "denoise_provider_to_string provider =
     (if provider = NVIDIA_VIDEO_NOISE_REMOVAL
      then Inr ''Filter.VideoDenoising.Provider.NVIDIAVideoNoiseRemoval''
      else Inl (Runtime_error ''Missing Conversion Entry''))"

record video_denoising_factory =
  nvidia_available :: bool

definition is_provider_available :: "video_denoising_factory \<Rightarrow> denoise_provider \<Rightarrow> bool" where
  "is_provider_available factory provider =
     (if provider = NVIDIA_VIDEO_NOISE_REMOVAL then nvidia_available factory else False)"

text \<open>
  The switch of \<^verbatim>\<open>video_render\<close> under "Allow the provider to restrict the size".
\<close>

definition restrict_size :: "denoise_provider \<Rightarrow> u32 \<Rightarrow> u32 \<Rightarrow> (u32 \<times> u32) option" where
  "restrict_size provider width height =
     (if provider = NVIDIA_VIDEO_NOISE_REMOVAL then resize_nvidia_noise_removal width height
      else Some (width, height))"

section \<open>Instance state\<close>

text \<open>
  A texture is a GPU object: its identity, its dimensions and its contents. An
  \<^verbatim>\<open>NvCVImage\<close> is the vendor's image descriptor; the source reads its width only.
\<close>

record texture =
  tex_id :: nat
  tex_width :: u32
  tex_height :: u32
  tex_pixels :: "nat list"

record cvimage =
  cvi_width :: u32
  cvi_height :: u32

text \<open>
  Calls that leave the instance, in the order they are made: to the host
  (\<^verbatim>\<open>obs_source_*\<close>, \<^verbatim>\<open>gs_*\<close>), to the log and to the vendor image library. Calls that
  only set GPU pipeline state (blend, depth, stencil, cull, sRGB) are left out.
\<close>

datatype call =
    Skip_video_filter
  | Process_filter_begin
  | Process_filter_end u32 u32
  | Log_error string
  | Log_task_failure error
  | Unmap_resource cvimage
  | Dealloc cvimage
  | Init_from_texture nat
  | Map_resource cvimage
  | Copy_texture nat nat
  | Set_image bool nat
  | Draw_sprite u32 u32

text \<open>
  The members of \<^verbatim>\<open>video_denoising_instance\<close>. A shared pointer to an SDK wrapper is
  \<open>True\<close> when it is not null; a shared pointer to a texture is \<open>None\<close> when null.
\<close>

record video_denoising_instance =
  m_size :: "u32 \<times> u32"
  m_provider_ready :: bool
  m_provider :: denoise_provider
  m_provider_task :: "nat option"
  m_input :: texture
  m_output :: "texture option"
  m_nvcuda :: bool
  m_nvcvi :: bool
  m_nvvfx :: bool
  m_nvidia_input :: "texture option"
  m_nvidia_output :: "texture option"
  m_nvidia_cvi_input :: cvimage
  m_nvidia_cvi_output :: cvimage

text \<open>
  The instance together with what it acts on: the pending tasks of the worker pool
  (handle and \<^verbatim>\<open>switch_provider_data_t::provider\<close>), the next free task handle and
  texture identity, and the calls made so far.
\<close>

record system = video_denoising_instance +
  pool :: "(nat \<times> denoise_provider) list"
  next_handle :: nat
  next_tex :: nat
  calls :: "call list"

text \<open>
  What the platform answers during one operation: whether each SDK singleton can be
  acquired, whether a texture of a given size can be created, and the vendor image
  library (\<open>True\<close> is \<^verbatim>\<open>result::SUCCESS\<close>).
\<close>

record platform =
  cuda_get :: bool
  cv_get :: bool
  vfx_get :: bool
  texture_create :: "u32 \<Rightarrow> u32 \<Rightarrow> bool"
  NvCVImage_UnmapResource :: "cvimage \<Rightarrow> bool"
  NvCVImage_Dealloc :: "cvimage \<Rightarrow> cvimage"
  NvCVImage_InitFromD3D11Texture :: "cvimage \<Rightarrow> texture \<Rightarrow> bool \<times> cvimage"
  NvCVImage_MapResource :: "cvimage \<Rightarrow> bool"

text \<open>What the host presents at one render tick.\<close>

record frame =
  f_target :: "(u32 \<times> u32) option"
  f_parent :: bool
  f_begin :: bool
  f_pixels :: "nat list"
  f_linear_srgb :: bool
  f_passes :: nat

definition emit :: "call \<Rightarrow> system \<Rightarrow> system" where
  "emit c w = w\<lparr>calls := calls w @ [c]\<rparr>"

section \<open>Worker pool\<close>

text \<open>
  Modelled from the spec: \<^verbatim>\<open>streamfx::threadpool\<close> is not among the sources. The
  specification describes it as a FIFO with per-handle cancellation: \<open>pop\<close> removes a
  pending handle, \<open>push\<close> appends a task and returns its handle.
\<close>

definition threadpool_pop :: "nat \<Rightarrow> system \<Rightarrow> system" where
  "threadpool_pop h w = w\<lparr>pool := filter (\<lambda>t. fst t \<noteq> h) (pool w)\<rparr>"

definition threadpool_push :: "denoise_provider \<Rightarrow> system \<Rightarrow> nat \<times> system" where
  "threadpool_push d w =
     (next_handle w, w\<lparr>pool := pool w @ [(next_handle w, d)], next_handle := Suc (next_handle w)\<rparr>)"

section \<open>Settings\<close>

text \<open>\<^verbatim>\<open>video_denoising_instance::switch_provider\<close>.\<close>

definition switch_provider :: "denoise_provider \<Rightarrow> system \<Rightarrow> system" where
  "switch_provider provider w =
     (let w1 = (case m_provider_task w of Some h \<Rightarrow> threadpool_pop h w | None \<Rightarrow> w);
          (h, w2) = threadpool_push provider w1
      in w2\<lparr>m_provider_task := Some h\<rparr>)"

text \<open>The loop of \<^verbatim>\<open>update\<close> over \<^verbatim>\<open>provider_priority\<close>, leaving at the first available entry.\<close>

fun first_available :: "video_denoising_factory \<Rightarrow> denoise_provider list \<Rightarrow> denoise_provider \<Rightarrow> denoise_provider" where
  "first_available factory [] provider = provider"
| "first_available factory (v # vs) provider =
     (if is_provider_available factory v then v else first_available factory vs provider)"

text \<open>
  \<^verbatim>\<open>static_cast<denoise_provider>(v)\<close> of the 64-bit integer that
  \<^verbatim>\<open>obs_data_get_int\<close> returns: the enumeration is stored as a 32-bit \<^verbatim>\<open>int\<close>, so the
  value is narrowed to its low 32 bits, read in two's complement.
\<close>

definition static_cast_provider :: "int \<Rightarrow> denoise_provider" where
  "static_cast_provider v = sint (word_of_int v :: 32 word)"

text \<open>
  The first statements of \<^verbatim>\<open>update\<close>: the provider read from the settings, with
  \<^verbatim>\<open>AUTOMATIC\<close> replaced by the first available entry of the priority list, if any.
  \<open>data\<close> is the integer stored under \<^verbatim>\<open>Filter.VideoDenoising.Provider\<close>.
\<close>

definition requested_provider :: "video_denoising_factory \<Rightarrow> int \<Rightarrow> denoise_provider" where
  "requested_provider factory data =
     (let provider = static_cast_provider data
      in if provider = AUTOMATIC
         then first_available factory provider_priority provider else provider)"

text \<open>\<^verbatim>\<open>video_denoising_instance::update\<close>.\<close>

definition update :: "video_denoising_factory \<Rightarrow> int \<Rightarrow> system \<Rightarrow> system" where
  "update factory data w =
     (let provider = requested_provider factory data
      in if provider \<noteq> m_provider w then switch_provider provider w else w)"

text \<open>The constructor; \<open>data\<close> is \<open>None\<close> when the host passes no settings.\<close>

definition create :: "video_denoising_factory \<Rightarrow> int option \<Rightarrow> system" where
  "create factory data =
     (let w = \<lparr>m_size = (1, 1), m_provider_ready = False, m_provider = AUTOMATIC,
               m_provider_task = None,
               m_input = \<lparr>tex_id = 0, tex_width = 1, tex_height = 1, tex_pixels = []\<rparr>,
               m_output = None, m_nvcuda = False, m_nvcvi = False, m_nvvfx = False,
               m_nvidia_input = None, m_nvidia_output = None,
               m_nvidia_cvi_input = \<lparr>cvi_width = 0, cvi_height = 0\<rparr>,
               m_nvidia_cvi_output = \<lparr>cvi_width = 0, cvi_height = 0\<rparr>,
               pool = [], next_handle = 0, next_tex = 1, calls = []\<rparr>
      in case data of None \<Rightarrow> w | Some d \<Rightarrow> update factory d w)"

section \<open>Provider backend\<close>

text \<open>
  \<^verbatim>\<open>video_denoising_instance::load_nvidia_noise_removal\<close>. Each \<^verbatim>\<open>get()\<close> either
  returns the singleton or throws; an assignment made before the throw stays.
\<close>

definition load_nvidia_noise_removal :: "platform \<Rightarrow> system \<Rightarrow> error option \<times> system" where
  "load_nvidia_noise_removal env w =
     (if \<not> cuda_get env then (Some Sdk_unavailable, w)
      else let w1 = w\<lparr>m_nvcuda := True\<rparr> in
        if \<not> cv_get env then (Some Sdk_unavailable, w1)
        else let w2 = w1\<lparr>m_nvcvi := True\<rparr> in
          if \<not> vfx_get env then (Some Sdk_unavailable, w2)
          else (None, w2\<lparr>m_nvvfx := True\<rparr>))"

text \<open>
  The block that the source repeats for the input and the output image, in
  \<^verbatim>\<open>unload_nvidia_noise_removal\<close> ("Clean up any CUDA resources in use") and in
  \<^verbatim>\<open>process_nvidia_noise_removal\<close> ("Unmap and deallocate previous resource"): if the
  image has a width, unmap it, throw when that fails, otherwise deallocate it. The
  result is the image afterwards.
\<close>

definition unmap_and_dealloc :: "string \<Rightarrow> platform \<Rightarrow> cvimage \<Rightarrow> system \<Rightarrow> (error + cvimage) \<times> system" where
  "unmap_and_dealloc which env img w =
     (if cvi_width img \<noteq> 0 then
        (if \<not> m_nvcvi w then (Inl Null_dereference, w)
         else let w1 = emit (Unmap_resource img) w in
           if \<not> NvCVImage_UnmapResource env img then
             (Inl (Runtime_error ''Error''),
              emit (Log_error (''Failed to NvCVImage_UnmapResource '' @ which @ '' with error'')) w1)
           else (Inr (NvCVImage_Dealloc env img), emit (Dealloc img) w1))
      else (Inr img, w))"

text \<open>\<^verbatim>\<open>video_denoising_instance::unload_nvidia_noise_removal\<close>.\<close>

definition unload_nvidia_noise_removal :: "platform \<Rightarrow> system \<Rightarrow> error option \<times> system" where
  "unload_nvidia_noise_removal env w =
     (if \<not> m_nvcuda w then (Some Null_dereference, w)
      else
        (case unmap_and_dealloc ''input'' env (m_nvidia_cvi_input w) w of
           (Inl e, w1) \<Rightarrow> (Some e, w1)
         | (Inr img, w1) \<Rightarrow>
             let w2 = w1\<lparr>m_nvidia_cvi_input := img\<rparr> in
             (case unmap_and_dealloc ''output'' env (m_nvidia_cvi_output w2) w2 of
                (Inl e, w3) \<Rightarrow> (Some e, w3)
              | (Inr img', w3) \<Rightarrow>
                  (None, w3\<lparr>m_nvidia_cvi_output := img', m_nvidia_input := None,
                            m_nvidia_output := None, m_nvvfx := False, m_nvcvi := False,
                            m_nvcuda := False\<rparr>))))"

text \<open>
  \<^verbatim>\<open>std::make_shared<gs::texture>(width, height, GS_RGBA_UNORM, 1, nullptr, flags::None)\<close>:
  a new texture without initial data, or an exception of the graphics wrapper.
\<close>

definition make_texture :: "platform \<Rightarrow> u32 \<Rightarrow> u32 \<Rightarrow> system \<Rightarrow> (error + texture) \<times> system" where
  "make_texture env width height w =
     (if \<not> texture_create env width height then (Inl (Runtime_error ''Failed to create texture''), w)
      else (Inr \<lparr>tex_id = next_tex w, tex_width = width, tex_height = height, tex_pixels = []\<rparr>,
            w\<lparr>next_tex := Suc (next_tex w)\<rparr>))"

text \<open>Whether a buffer must be created again: it is null or its size is not \<^verbatim>\<open>_size\<close>.\<close>

definition stale :: "texture option \<Rightarrow> u32 \<times> u32 \<Rightarrow> bool" where
  "stale buffer sz =
     (case buffer of None \<Rightarrow> True | Some t \<Rightarrow> tex_width t \<noteq> fst sz \<or> tex_height t \<noteq> snd sz)"

text \<open>"Re-create the input buffer if necessary" of \<^verbatim>\<open>process_nvidia_noise_removal\<close>.\<close>

definition recreate_input :: "platform \<Rightarrow> system \<Rightarrow> error option \<times> system" where
  "recreate_input env w =
     (if stale (m_nvidia_input w) (m_size w) then
        (case unmap_and_dealloc ''input'' env (m_nvidia_cvi_input w) w of
           (Inl e, w1) \<Rightarrow> (Some e, w1)
         | (Inr img, w1) \<Rightarrow>
             (case make_texture env (fst (m_size w)) (snd (m_size w)) (w1\<lparr>m_nvidia_cvi_input := img\<rparr>) of
                (Inl e, w2) \<Rightarrow> (Some e, w2)
              | (Inr t, w2) \<Rightarrow>
                  let w3 = w2\<lparr>m_nvidia_input := Some t\<rparr> in
                  if \<not> m_nvcvi w3 then (Some Null_dereference, w3)
                  else
                    let (ok, img') = NvCVImage_InitFromD3D11Texture env (m_nvidia_cvi_input w3) t;
                        w4 = emit (Init_from_texture (tex_id t)) (w3\<lparr>m_nvidia_cvi_input := img'\<rparr>)
                    in if \<not> ok then
                         (Some (Runtime_error ''Error''),
                          emit (Log_error ''Failed to NvCVImage_InitFromD3D11Texture input with error'') w4)
                       else
                         let w5 = emit (Map_resource img') w4 in
                         if \<not> NvCVImage_MapResource env img' then
                           (Some (Runtime_error ''Error''),
                            emit (Log_error ''Failed to NvCVImage_MapResource input with error'') w5)
                         else (None, w5)))
      else (None, w))"

text \<open>"Re-create the output buffer if necessary" of \<^verbatim>\<open>process_nvidia_noise_removal\<close>.\<close>

definition recreate_output :: "platform \<Rightarrow> system \<Rightarrow> error option \<times> system" where
  "recreate_output env w =
     (if stale (m_nvidia_output w) (m_size w) then
        (case unmap_and_dealloc ''output'' env (m_nvidia_cvi_output w) w of
           (Inl e, w1) \<Rightarrow> (Some e, w1)
         | (Inr img, w1) \<Rightarrow>
             (case make_texture env (fst (m_size w)) (snd (m_size w)) (w1\<lparr>m_nvidia_cvi_output := img\<rparr>) of
                (Inl e, w2) \<Rightarrow> (Some e, w2)
              | (Inr t, w2) \<Rightarrow>
                  let w3 = w2\<lparr>m_nvidia_output := Some t\<rparr> in
                  if \<not> m_nvcvi w3 then (Some Null_dereference, w3)
                  else
                    let (ok, img') = NvCVImage_InitFromD3D11Texture env (m_nvidia_cvi_output w3) t;
                        w4 = emit (Init_from_texture (tex_id t)) (w3\<lparr>m_nvidia_cvi_output := img'\<rparr>)
                    in if \<not> ok then
                         (Some (Runtime_error ''Error''),
                          emit (Log_error ''Failed to NvCVImage_InitFromD3D11Texture output with error'') w4)
                       else
                         let w5 = emit (Map_resource img') w4 in
                         if \<not> NvCVImage_MapResource env img' then
                           (Some (Runtime_error ''Error''),
                            emit (Log_error ''Failed to NvCVImage_MapResource output with error'') w5)
                         else (None, w5)))
      else (None, w))"

text \<open>
  \<^verbatim>\<open>video_denoising_instance::process_nvidia_noise_removal\<close>: both buffers are brought
  to \<^verbatim>\<open>_size\<close>, the captured input is copied into the input buffer with
  \<^verbatim>\<open>gs_copy_texture\<close>, and \<^verbatim>\<open>_nvidia_output\<close> is returned.
\<close>

definition process_nvidia_noise_removal :: "platform \<Rightarrow> system \<Rightarrow> (error + texture option) \<times> system" where
  "process_nvidia_noise_removal env w =
     (if \<not> m_nvcuda w then (Inl Null_dereference, w)
      else
        let texture = m_input w in
        (case recreate_input env w of
           (Some e, w1) \<Rightarrow> (Inl e, w1)
         | (None, w1) \<Rightarrow>
             (case recreate_output env w1 of
                (Some e, w2) \<Rightarrow> (Inl e, w2)
              | (None, w2) \<Rightarrow>
                  (case m_nvidia_input w2 of
                     None \<Rightarrow> (Inl Null_dereference, w2)
                   | Some dst \<Rightarrow>
                       (Inr (m_nvidia_output w2),
                        emit (Copy_texture (tex_id dst) (tex_id texture))
                          (w2\<lparr>m_nvidia_input := Some (dst\<lparr>tex_pixels := tex_pixels texture\<rparr>)\<rparr>))))))"

section \<open>Provider switch\<close>

text \<open>
  \<^verbatim>\<open>video_denoising_instance::task_switch_provider\<close>; \<open>provider\<close> is
  \<^verbatim>\<open>spd->provider\<close>. An exception of a step leaves the task at that step.
\<close>

definition task_switch_provider :: "platform \<Rightarrow> denoise_provider \<Rightarrow> system \<Rightarrow> error option \<times> system" where
  "task_switch_provider env provider w =
     (let w1 = w\<lparr>m_provider_ready := False\<rparr> in
      (case (if provider = NVIDIA_VIDEO_NOISE_REMOVAL then load_nvidia_noise_removal env w1
             else (None, w1)) of
         (Some e, w2) \<Rightarrow> (Some e, w2)
       | (None, w2) \<Rightarrow>
           (case (if m_provider w2 = NVIDIA_VIDEO_NOISE_REMOVAL then unload_nvidia_noise_removal env w2
                  else (None, w2)) of
              (Some e, w3) \<Rightarrow> (Some e, w3)
            | (None, w3) \<Rightarrow> (None, w3\<lparr>m_provider := provider, m_provider_ready := True\<rparr>))))"

text \<open>
  Modelled from the spec: the worker of \<^verbatim>\<open>streamfx::threadpool\<close> is not among the
  sources. It takes the oldest pending task and runs its body; an error of the body is
  contained in the worker and surfaces as log output.
\<close>

definition threadpool_run :: "platform \<Rightarrow> system \<Rightarrow> system" where
  "threadpool_run env w =
     (case pool w of
        [] \<Rightarrow> w
      | (h, provider) # rest \<Rightarrow>
          (case task_switch_provider env provider (w\<lparr>pool := rest\<rparr>) of
             (Some e, w1) \<Rightarrow> emit (Log_task_failure e) w1
           | (None, w1) \<Rightarrow> w1))"

section \<open>Render tick\<close>

text \<open>
  \<^verbatim>\<open>obs_source_get_base_width\<close> and \<^verbatim>\<open>obs_source_get_base_height\<close> of the host
  return 0 for a null source.
\<close>

definition obs_source_get_base_width :: "(u32 \<times> u32) option \<Rightarrow> u32" where
  "obs_source_get_base_width target = (case target of None \<Rightarrow> 0 | Some s \<Rightarrow> fst s)"

definition obs_source_get_base_height :: "(u32 \<times> u32) option \<Rightarrow> u32" where
  "obs_source_get_base_height target = (case target of None \<Rightarrow> 0 | Some s \<Rightarrow> snd s)"

text \<open>The loop \<^verbatim>\<open>while (gs_effect_loop(effect, "Draw")) gs_draw_sprite(...)\<close>, one turn per pass.\<close>

fun draw_passes :: "nat \<Rightarrow> u32 \<times> u32 \<Rightarrow> system \<Rightarrow> system" where
  "draw_passes 0 sz w = w"
| "draw_passes (Suc n) sz w = draw_passes n sz (emit (Draw_sprite (fst sz) (snd sz)) w)"

text \<open>
  "Capture the input" of \<^verbatim>\<open>video_render\<close>, when the host accepts the filter
  transaction: rendering into \<^verbatim>\<open>_input\<close> gives it the size of the upstream and the
  pixels of the upstream frame.
\<close>

definition capture_input :: "frame \<Rightarrow> u32 \<Rightarrow> u32 \<Rightarrow> system \<Rightarrow> system" where
  "capture_input fr width height w =
     emit (Process_filter_end width height)
       (w\<lparr>m_input := (m_input w)\<lparr>tex_width := width, tex_height := height,
                                  tex_pixels := f_pixels fr\<rparr>\<rparr>)"

text \<open>
  "Throw away the input buffer" and "Draw the result for the next filter to use" of
  \<^verbatim>\<open>video_render\<close>.
\<close>

definition draw_result :: "frame \<Rightarrow> texture \<Rightarrow> system \<Rightarrow> system" where
  "draw_result fr result w =
     (let w1 = w\<lparr>m_input := (m_input w)\<lparr>tex_width := 1, tex_height := 1, tex_pixels := []\<rparr>\<rparr>;
          w2 = emit (Set_image (f_linear_srgb fr) (tex_id result)) w1
      in draw_passes (f_passes fr) (m_size w2) w2)"

text \<open>
  \<^verbatim>\<open>video_denoising_instance::video_render\<close>. The function has no handler: an error
  of a callee is the error of the tick.
\<close>

definition video_render :: "platform \<Rightarrow> frame \<Rightarrow> system \<Rightarrow> error option \<times> system" where
  "video_render env fr w =
     (let width = obs_source_get_base_width (f_target fr);
          height = obs_source_get_base_height (f_target fr);
          target = (f_target fr \<noteq> None \<or> f_parent fr)
      in
      if \<not> m_provider_ready w \<or> \<not> target \<or> width = 0 \<or> height = 0 then
        (None, emit Skip_video_filter w)
      else
        (case restrict_size (m_provider w) width height of
           None \<Rightarrow> (Some Undefined_cast, w)
         | Some sz \<Rightarrow>
             let w1 = emit Process_filter_begin (w\<lparr>m_size := sz\<rparr>) in
             if \<not> f_begin fr then (None, emit Skip_video_filter w1)
             else
               let w2 = capture_input fr width height w1 in
               (case (if m_provider w2 = NVIDIA_VIDEO_NOISE_REMOVAL
                      then process_nvidia_noise_removal env w2 else (Inr None, w2)) of
                  (Inl e, w3) \<Rightarrow> (Some e, w3)
                | (Inr out, w3) \<Rightarrow>
                    let w4 = w3\<lparr>m_output := out\<rparr> in
                    (case out of
                       None \<Rightarrow>
                         (case denoise_provider_to_string (m_provider w4) of
                            Inl e \<Rightarrow> (Some e, w4)
                          | Inr name \<Rightarrow>
                              (None, emit Skip_video_filter
                                 (emit (Log_error (''Provider '' @ name @ '' did not return a result.'')) w4)))
                     | Some result \<Rightarrow> (None, draw_result fr result w4)))))"

section \<open>Histories\<close>

text \<open>
  What happens to an instance after its creation: the host delivers settings, the
  worker pool runs the oldest pending task, the host asks for a frame. The operations
  do not overlap: each one ends before the next begins, so the provider mutex is
  never contended and is left out of the state.
\<close>

datatype event = Update int | Run_task platform | Render platform frame

fun step :: "video_denoising_factory \<Rightarrow> event \<Rightarrow> system \<Rightarrow> system" where
  "step factory (Update data) w = update factory data w"
| "step factory (Run_task env) w = threadpool_run env w"
| "step factory (Render env fr) w = snd (video_render env fr w)"

fun exec :: "video_denoising_factory \<Rightarrow> event list \<Rightarrow> system \<Rightarrow> system" where
  "exec factory [] w = w"
| "exec factory (ev # evs) w = exec factory evs (step factory ev w)"

text \<open>The backend of the current provider is loaded: all three SDK handles are held.\<close>

definition backend_loaded :: "system \<Rightarrow> bool" where
  "backend_loaded w \<longleftrightarrow>
     m_provider w = NVIDIA_VIDEO_NOISE_REMOVAL \<and> m_nvcuda w \<and> m_nvcvi w \<and> m_nvvfx w"



text \<open>
  At most one task is pending; it is the one the instance holds the handle of, and
  its target differs from the current provider.
\<close>

definition pool_consistent :: "system \<Rightarrow> bool" where
  "pool_consistent w \<longleftrightarrow>
     (case pool w of
        [] \<Rightarrow> True
      | (h, provider) # rest \<Rightarrow>
          rest = [] \<and> m_provider_task w = Some h \<and> provider \<noteq> m_provider w)"

text \<open>The calls of the image library and the texture copy.\<close>

fun image_call :: "call \<Rightarrow> bool" where
  "image_call (Unmap_resource img) = True"
| "image_call (Dealloc img) = True"
| "image_call (Init_from_texture t) = True"
| "image_call (Map_resource img) = True"
| "image_call (Copy_texture dst src) = True"
| "image_call c = False"

text \<open>The calls made between two states.\<close>

definition new_calls :: "system \<Rightarrow> system \<Rightarrow> call list" where
  "new_calls w w' = drop (length (calls w)) (calls w')"

section \<open>Sample platforms, frames and histories\<close>

text \<open>
  A platform on which every call succeeds: deallocation clears the image and
  initialisation describes the texture.
\<close>

definition sdk_present :: platform where
  "sdk_present =
     \<lparr>cuda_get = True, cv_get = True, vfx_get = True,
      texture_create = (\<lambda>width height. True),
      NvCVImage_UnmapResource = (\<lambda>img. True),
      NvCVImage_Dealloc = (\<lambda>img. \<lparr>cvi_width = 0, cvi_height = 0\<rparr>),
      NvCVImage_InitFromD3D11Texture =
        (\<lambda>img t. (True, \<lparr>cvi_width = tex_width t, cvi_height = tex_height t\<rparr>)),
      NvCVImage_MapResource = (\<lambda>img. True)\<rparr>"


definition sdk_map_fails :: platform where
  "sdk_map_fails = sdk_present\<lparr>NvCVImage_MapResource := (\<lambda>img. False)\<rparr>"

definition registry :: video_denoising_factory where
  "registry = \<lparr>nvidia_available = True\<rparr>"

definition frame_720p :: frame where
  "frame_720p = \<lparr>f_target = Some (1280, 720), f_parent = True, f_begin = True,
     f_pixels = [1, 2, 3], f_linear_srgb = False, f_passes = 1\<rparr>"

definition frame_720p_next :: frame where
  "frame_720p_next = frame_720p\<lparr>f_pixels := [4, 5, 6]\<rparr>"

text \<open>An instance created without settings, then switched to provider 1 by a task that succeeds.\<close>

definition ready_nvidia :: system where
  "ready_nvidia = exec registry [Update 1, Run_task sdk_present] (create registry None)"

text \<open>The same instance after one frame.\<close>

definition after_frame :: system where
  "after_frame = exec registry [Render sdk_present frame_720p] ready_nvidia"

text \<open>
  An instance whose settings name provider 7, a value outside the enumeration, after
  the switch task has run.
\<close>

definition ready_unlisted :: system where
  "ready_unlisted = exec registry [Update 7, Run_task sdk_present] (create registry None)"


section \<open>Rounding error of doubles\<close>

lemma rne_err: "\<bar>of_int (rne s) - s\<bar> \<le> 1 / 2"
  unfolding rne_def Let_def by (auto simp: abs_if) linarith+

lemma ilog2_lower: assumes "0 < q" shows "2 powi ilog2 q \<le> q"
proof -
  obtain a b where ab: "quotient_of q = (a, b)" by (cases "quotient_of q")
  have bpos: "0 < b" using ab quotient_of_denom_pos by blast
  have q: "q = of_int a / of_int b" using ab quotient_of_div by blast
  have apos: "0 < a" using assms q bpos by (simp add: zero_less_divide_iff)
  have la: "1 \<le> bitlen a" and lb: "1 \<le> bitlen b"
    using apos bpos by (auto simp: bitlen_alt_def)
  have A: "(2::int) ^ nat (bitlen a - 1) \<le> a" using bitlen_bounds [OF apos] by simp
  have B: "b < (2::int) ^ nat (bitlen b)" using bitlen_bounds [OF bpos] by simp
  have A': "(2::rat) ^ nat (bitlen a - 1) \<le> of_int a"
    using A by (metis of_int_le_iff of_int_numeral of_int_power)
  have B': "of_int b \<le> (2::rat) ^ nat (bitlen b)"
    using B by (metis less_imp_le of_int_le_iff of_int_numeral of_int_power)
  have low: "(2::rat) powi (bitlen a - bitlen b - 1) \<le> q"
  proof -
    have "(2::rat) powi (bitlen a - bitlen b - 1) = 2 powi (bitlen a - 1) / 2 powi (bitlen b)"
      by (simp add: power_int_diff power_int_add)
    also have "\<dots> = 2 ^ nat (bitlen a - 1) / 2 ^ nat (bitlen b)"
      using la lb by (simp add: power_int_def)
    also have "\<dots> \<le> of_int a / of_int b"
      using A' B' bpos apos by (intro frac_le) auto
    finally show ?thesis using q by simp
  qed
  show ?thesis
    using low by (simp add: ilog2_def ab Let_def)
qed

lemma ilog2_upper: assumes "0 < q" shows "q < 2 powi (ilog2 q + 1)"
proof -
  obtain a b where ab: "quotient_of q = (a, b)" by (cases "quotient_of q")
  have bpos: "0 < b" using ab quotient_of_denom_pos by blast
  have q: "q = of_int a / of_int b" using ab quotient_of_div by blast
  have apos: "0 < a" using assms q bpos by (simp add: zero_less_divide_iff)
  have la: "1 \<le> bitlen a" and lb: "1 \<le> bitlen b"
    using apos bpos by (auto simp: bitlen_alt_def)
  have A: "a < (2::int) ^ nat (bitlen a)" using bitlen_bounds [OF apos] by simp
  have B: "(2::int) ^ nat (bitlen b - 1) \<le> b" using bitlen_bounds [OF bpos] by simp
  have A': "of_int a < (2::rat) ^ nat (bitlen a)"
    using A by (metis of_int_less_iff of_int_numeral of_int_power)
  have B': "(2::rat) ^ nat (bitlen b - 1) \<le> of_int b"
    using B by (metis of_int_le_iff of_int_numeral of_int_power)
  have up: "q < (2::rat) powi (bitlen a - bitlen b + 1)"
  proof -
    have "of_int a / of_int b < (2::rat) ^ nat (bitlen a) / 2 ^ nat (bitlen b - 1)"
      using A' B' bpos apos by (intro frac_less) auto
    also have "\<dots> = 2 powi (bitlen a) / 2 powi (bitlen b - 1)"
      using la lb by (simp add: power_int_def)
    also have "\<dots> = (2::rat) powi (bitlen a - bitlen b + 1)"
      by (simp add: power_int_diff power_int_add)
    finally show ?thesis using q by simp
  qed
  show ?thesis
    using up by (auto simp add: ilog2_def ab Let_def not_le)
qed

lemma round_to_double_err:
  assumes "0 \<le> q" shows "\<bar>round_to_double q - q\<bar> \<le> q / 2 ^ 53"
proof (cases "q = 0")
  case True
  then show ?thesis by (simp add: round_to_double_def)
next
  case False
  then have qpos: "0 < q" using assms by simp
  define e where "e = ilog2 q - 52"
  define s where "s = q / 2 powi e"
  have p: "(0::rat) < 2 powi e" by simp
  have r: "round_to_double q = of_int (rne s) * 2 powi e"
    using qpos by (simp add: round_to_double_def e_def s_def Let_def)
  have qs: "q = s * 2 powi e" by (simp add: s_def)
  have "\<bar>round_to_double q - q\<bar> = \<bar>of_int (rne s) - s\<bar> * 2 powi e"
    unfolding r by (subst qs) (simp add: abs_mult flip: left_diff_distrib)
  also have "\<dots> \<le> 1 / 2 * 2 powi e"
    using rne_err [of s] p by (intro mult_right_mono) auto
  also have "\<dots> = 2 powi ilog2 q / 2 ^ 53"
    by (simp add: e_def power_int_diff)
  also have "\<dots> \<le> q / 2 ^ 53"
    using ilog2_lower [OF qpos] by (simp add: divide_right_mono)
  finally show ?thesis .
qed

lemma scaled_product_err:
  fixes a b r :: int
  assumes a: "0 \<le> a" "a \<le> b" and b: "0 < b" and r: "0 \<le> r" "r \<le> 1920"
  defines "p \<equiv> round_to_double (of_int r * round_to_double (of_int a / of_int b))"
  shows "\<bar>p - of_int r * of_int a / of_int b\<bar> \<le> 1 / 2 ^ 41" and "0 \<le> p"
proof -
  define t :: rat where "t = of_int a / of_int b"
  define t' where "t' = round_to_double t"
  define u where "u = of_int r * t'"
  have t0: "0 \<le> t" and t1: "t \<le> 1"
    using a b by (simp_all add: t_def)
  have et: "\<bar>t' - t\<bar> \<le> t / 2 ^ 53"
    unfolding t'_def by (rule round_to_double_err [OF t0])
  have et1: "\<bar>t' - t\<bar> \<le> 1 / 2 ^ 53"
    using et t1 by (simp add: field_simps)
  have t'0: "0 \<le> t'"
  proof -
    have "t / 2 ^ 53 \<le> t" using t0 by (simp add: field_simps)
    then show ?thesis using et by linarith
  qed
  have t'1: "t' \<le> 1 + 1 / 2 ^ 53" using et1 t1 by linarith
  have r0: "(0::rat) \<le> of_int r" and r1: "of_int r \<le> (1920::rat)"
    using r by simp_all
  have u0: "0 \<le> u" unfolding u_def using r0 t'0 by simp
  have u1: "u \<le> 1920 * (1 + 1 / 2 ^ 53)"
    unfolding u_def using r0 r1 t'0 t'1 by (intro mult_mono) auto
  have p: "p = round_to_double u"
    by (simp add: p_def u_def t'_def t_def)
  have ep: "\<bar>p - u\<bar> \<le> u / 2 ^ 53"
    unfolding p by (rule round_to_double_err [OF u0])
  have ep1: "\<bar>p - u\<bar> \<le> 1920 * (1 + 1 / 2 ^ 53) / 2 ^ 53"
    using ep u1 by (simp add: field_simps)
  have "\<bar>u - of_int r * t\<bar> = of_int r * \<bar>t' - t\<bar>"
    unfolding u_def using r0 by (simp add: abs_mult flip: right_diff_distrib)
  also have "\<dots> \<le> 1920 * (1 / 2 ^ 53)"
    using r0 r1 et1 by (intro mult_mono) auto
  finally have eu: "\<bar>u - of_int r * t\<bar> \<le> 1920 * (1 / 2 ^ 53)" .
  have "\<bar>p - of_int r * t\<bar> \<le> 1920 * (1 + 1 / 2 ^ 53) / 2 ^ 53 + 1920 * (1 / 2 ^ 53)"
    using ep1 eu by linarith
  also have "\<dots> \<le> 1 / 2 ^ 41" by simp
  finally show "\<bar>p - of_int r * of_int a / of_int b\<bar> \<le> 1 / 2 ^ 41"
    by (simp add: t_def)
  have "u / 2 ^ 53 \<le> u" using u0 by (simp add: field_simps)
  then show "0 \<le> p" using ep by linarith
qed

lemma scaled_round_nearest:
  fixes a b r :: int
  assumes a: "0 \<le> a" "a \<le> b" and b: "0 < b" "b < 2 ^ 32" and r: "0 \<le> r" "r \<le> 1920"
  defines "n \<equiv> \<lfloor>round_to_double (of_int r * round_to_double (of_int a / of_int b)) + 1 / 2\<rfloor>"
  shows "2 * \<bar>r * a - n * b\<bar> \<le> b" and "0 \<le> n"
proof -
  define p where "p = round_to_double (of_int r * round_to_double (of_int a / of_int b))"
  define v :: rat where "v = of_int r * of_int a / of_int b"
  have e: "\<bar>p - v\<bar> \<le> 1 / 2 ^ 41" and p0: "0 \<le> p"
    unfolding p_def v_def using scaled_product_err [OF a b(1) r] by simp_all
  have n: "n = \<lfloor>p + 1 / 2\<rfloor>" by (simp add: n_def p_def)
  have n1: "of_int n \<le> p + 1 / 2" and n2: "p + 1 / 2 < of_int n + 1"
    unfolding n by linarith+
  show "0 \<le> n" unfolding n using p0 by simp
  have B: "(0::rat) < of_int b" using b(1) by simp
  have "(of_int b :: rat) < of_int (2 ^ 32)" using b(2) by (simp only: of_int_less_iff)
  then have B2: "of_int b < (2::rat) ^ 32" by simp
  define N :: rat where "N = of_int n"
  define Bq :: rat where "Bq = of_int b"
  define RA :: rat where "RA = of_int (r * a)"
  have vb: "v * Bq = RA" using B by (simp add: v_def Bq_def RA_def)
  have lo: "N - 1 / 2 - 1 / 2 ^ 41 \<le> v" using e n1 unfolding N_def by linarith
  have hi: "v < N + 1 / 2 + 1 / 2 ^ 41" using e n2 unfolding N_def by linarith
  have small: "Bq / 2 ^ 41 < 1 / 2" using B2 unfolding Bq_def by simp
  have Bpos: "0 < Bq" using B by (simp add: Bq_def)
  have "(N - 1 / 2 - 1 / 2 ^ 41) * Bq \<le> v * Bq"
    using lo Bpos by (intro mult_right_mono) auto
  moreover have "(N - 1 / 2 - 1 / 2 ^ 41) * Bq = N * Bq - Bq / 2 - Bq / 2 ^ 41"
    by (simp add: algebra_simps)
  ultimately have "2 * N * Bq - Bq - 1 < 2 * RA"
    using small vb by linarith
  then have "(of_int (2 * n * b - b - 1) :: rat) < of_int (2 * (r * a))"
    by (simp add: N_def Bq_def RA_def)
  then have L: "2 * n * b - b - 1 < 2 * (r * a)" by (simp only: of_int_less_iff)
  have "v * Bq < (N + 1 / 2 + 1 / 2 ^ 41) * Bq"
    using hi Bpos by (intro mult_strict_right_mono) auto
  moreover have "(N + 1 / 2 + 1 / 2 ^ 41) * Bq = N * Bq + Bq / 2 + Bq / 2 ^ 41"
    by (simp add: algebra_simps)
  ultimately have "2 * RA < 2 * N * Bq + Bq + 1"
    using small vb by linarith
  then have "(of_int (2 * (r * a)) :: rat) < of_int (2 * n * b + b + 1)"
    by (simp add: N_def Bq_def RA_def)
  then have U: "2 * (r * a) < 2 * n * b + b + 1" by (simp only: of_int_less_iff)
  show "2 * \<bar>r * a - n * b\<bar> \<le> b"
    using L U by (simp add: abs_if algebra_simps)
qed

lemma round_scaled_u32:
  fixes a b r :: u32
  assumes ab: "a \<le> b" and b0: "b \<noteq> 0" and r: "unat r \<le> 1920"
  shows "\<exists>n. double_to_u32 (c_round (double_mul (u32_to_double r)
            (round_to_double (u32_to_double a / u32_to_double b)))) = Some n
          \<and> nearest_scaled (unat n) (unat r) (unat a) (unat b)"
proof -
  define A where "A = uint a"
  define B where "B = uint b"
  define R where "R = uint r"
  define p where "p = round_to_double (of_int R * round_to_double (of_int A / of_int B))"
  define n where "n = \<lfloor>p + 1 / 2\<rfloor>"
  have A: "0 \<le> A" "A \<le> B" using ab by (simp_all add: A_def B_def word_le_def)
  have "uint b \<noteq> 0" using b0 by (simp add: uint_0_iff)
  then have B1: "0 < B" using uint_nonnegative [of b] unfolding B_def by linarith
  have "uint b < 4294967296" using uint_bounded [of b] by simp
  then have B2: "B < 2 ^ 32" unfolding B_def by (simp del: uint_lt2p)
  note B = B1 B2
  have "int (unat r) \<le> 1920" using r by linarith
  then have R: "0 \<le> R" "R \<le> 1920" by (simp_all add: R_def)
  have near: "2 * \<bar>R * A - n * B\<bar> \<le> B" and n0: "0 \<le> n"
    unfolding n_def p_def using scaled_round_nearest [OF A B R] by simp_all
  have p0: "0 \<le> p"
    unfolding p_def using scaled_product_err(2) [OF A B(1) R] by simp
  have nR: "n \<le> R"
  proof (rule ccontr)
    assume "\<not> n \<le> R"
    then have "R + 1 \<le> n" by simp
    then have "(R + 1) * B \<le> n * B" using B(1) by (intro mult_right_mono) auto
    moreover have "R * A \<le> R * B" using A R by (intro mult_left_mono) auto
    ultimately show False using near B(1) by (simp add: algebra_simps abs_if split: if_splits)
  qed
  have conv: "double_mul (u32_to_double r) (round_to_double (u32_to_double a / u32_to_double b)) = p"
    by (simp add: double_mul_def u32_to_double_def p_def A_def B_def R_def)
  have cr: "c_round p = of_int n" using p0 by (simp add: c_round_def n_def)
  have lt: "(of_int n :: rat) < 2 ^ 32"
  proof -
    have "n < 2 ^ 32" using nR R by simp
    then have "(of_int n :: rat) < of_int (2 ^ 32)" by (simp only: of_int_less_iff)
    then show ?thesis by simp
  qed
  have ge: "(0::rat) \<le> of_int n" using n0 by simp
  have cast: "double_to_u32 (of_int n) = Some (word_of_int n)"
    using lt ge by (simp add: double_to_u32_def)
  have un: "uint (word_of_int n :: u32) = n"
  proof -
    have "n < 2 ^ 32" using nR R by simp
    then show ?thesis using n0 by (simp add: uint_word_of_int)
  qed
  have "nearest_scaled (unat (word_of_int n :: u32)) (unat r) (unat a) (unat b)"
    unfolding nearest_scaled_def using near un by (simp add: A_def B_def R_def)
  then show ?thesis using conv cr cast by simp
qed

section \<open>Properties of the size policy\<close>

lemma unat_clamp_u32:
  "unat (clamp_u32 v lo hi) = (if unat v < unat lo then unat lo else if unat hi < unat v then unat hi else unat v)"
  by (simp add: clamp_u32_def word_less_nat_alt)

lemma u32_to_double_eq_0: "u32_to_double v = 0 \<longleftrightarrow> v = 0"
  by (simp add: u32_to_double_def unsigned_eq_0_iff)

lemma resize_width_dominant:
  assumes "y < x"
  shows "\<exists>n. resize_nvidia_noise_removal x y = Some (clamp_u32 x 142 1920, n)
           \<and> nearest_scaled (unat n) (unat (clamp_u32 x 142 1920)) (unat y) (unat x)"
proof -
  have x0: "x \<noteq> 0" using assms by (metis word_not_simps(1))
  have yx: "y \<le> x" using assms by simp
  have r: "unat (clamp_u32 x 142 1920) \<le> 1920" by (simp add: unat_clamp_u32)
  from round_scaled_u32 [OF yx x0 r] obtain n where
    n: "double_to_u32 (c_round (double_mul (u32_to_double (clamp_u32 x 142 1920))
          (round_to_double (u32_to_double y / u32_to_double x)))) = Some n"
    and near: "nearest_scaled (unat n) (unat (clamp_u32 x 142 1920)) (unat y) (unat x)"
    by blast
  have "resize_nvidia_noise_removal x y = Some (clamp_u32 x 142 1920, n)"
    using assms x0 n by (simp add: resize_nvidia_noise_removal_def double_div_def u32_to_double_eq_0 Let_def)
  then show ?thesis using near by blast
qed

lemma resize_height_dominant:
  assumes "\<not> y < x" and y0: "y \<noteq> 0"
  shows "\<exists>n. resize_nvidia_noise_removal x y = Some (n, clamp_u32 y 80 1080)
           \<and> nearest_scaled (unat n) (unat (clamp_u32 y 80 1080)) (unat x) (unat y)"
proof -
  have xy: "x \<le> y" using assms by simp
  have r: "unat (clamp_u32 y 80 1080) \<le> 1920" by (simp add: unat_clamp_u32)
  from round_scaled_u32 [OF xy y0 r] obtain n where
    n: "double_to_u32 (c_round (double_mul (u32_to_double (clamp_u32 y 80 1080))
          (round_to_double (u32_to_double x / u32_to_double y)))) = Some n"
    and near: "nearest_scaled (unat n) (unat (clamp_u32 y 80 1080)) (unat x) (unat y)"
    by blast
  have "resize_nvidia_noise_removal x y = Some (n, clamp_u32 y 80 1080)"
    using assms n by (simp add: resize_nvidia_noise_removal_def double_div_def u32_to_double_eq_0 Let_def)
  then show ?thesis using near by blast
qed

lemma nearest_scaled_le:
  assumes "nearest_scaled n r a b" "a \<le> b" "0 < b"
  shows "n \<le> r"
proof (rule ccontr)
  assume "\<not> n \<le> r"
  then have "int r + 1 \<le> int n" by simp
  then have "(int r + 1) * int b \<le> int n * int b" by (intro mult_right_mono) auto
  moreover have "int r * int a \<le> int r * int b" using assms(2) by (intro mult_left_mono) auto
  ultimately show False using assms(1,3)
    by (simp add: nearest_scaled_def algebra_simps abs_if split: if_splits)
qed

lemma nearest_scaled_same:
  assumes "nearest_scaled n b a b" "0 < b"
  shows "n = a"
proof -
  have "2 * \<bar>int b * (int a - int n)\<bar> \<le> int b"
    using assms(1) by (simp add: nearest_scaled_def algebra_simps)
  then have "2 * (int b * \<bar>int a - int n\<bar>) \<le> int b * 1"
    by (simp add: abs_mult)
  then have "int b * (2 * \<bar>int a - int n\<bar>) \<le> int b * 1" by (simp add: algebra_simps)
  then have "2 * \<bar>int a - int n\<bar> \<le> 1" using assms(2) by (simp only: mult_le_cancel_left_pos of_nat_0_less_iff)
  then show ?thesis by (simp add: abs_if split: if_splits)
qed

lemma nearest_scaled_full:
  assumes "nearest_scaled r r a b" "a < b"
  shows "2 * r \<le> b"
proof -
  have "a + 1 \<le> b" using assms(2) by simp
  then have "int r * (int a + 1) \<le> int r * int b" by (intro mult_left_mono) auto
  then show ?thesis using assms(1)
    by (simp add: nearest_scaled_def algebra_simps abs_if split: if_splits)
qed

lemma nearest_scaled_round:
  assumes near: "nearest_scaled n r a b" and b: "0 < b"
  defines "s \<equiv> nat (round (of_nat r * of_nat a / of_nat b :: rat))"
  shows "n = s \<or> (halfway r a b \<and> Suc n = s)"
proof -
  define q :: rat where "q = of_nat r * of_nat a / of_nat b"
  define B :: rat where "B = of_nat b"
  have Bpos: "0 < B" using b by (simp add: B_def)
  have qB: "q * B = of_nat (r * a)" using Bpos by (simp add: q_def B_def)
  have L: "(2 * int n - 1) * int b \<le> 2 * (int r * int a)"
    and U: "2 * (int r * int a) \<le> (2 * int n + 1) * int b"
    using near by (simp_all add: nearest_scaled_def algebra_simps abs_if split: if_splits)
  have e1: "(of_int ((2 * int n - 1) * int b) :: rat) = (2 * of_nat n - 1) * B"
    by (simp add: B_def)
  have e2: "(of_int (2 * (int r * int a)) :: rat) = 2 * (q * B)"
    by (simp add: qB)
  have e3: "(of_int ((2 * int n + 1) * int b) :: rat) = (2 * of_nat n + 1) * B"
    by (simp add: B_def)
  have "(of_int ((2 * int n - 1) * int b) :: rat) \<le> of_int (2 * (int r * int a))"
    using L by (simp only: of_int_le_iff)
  then have "(2 * of_nat n - 1) * B \<le> 2 * (q * B)" unfolding e1 e2 .
  then have "((2 * of_nat n - 1) - 2 * q) * B \<le> 0" by (simp add: algebra_simps)
  then have lo: "of_nat n - 1 / 2 \<le> q" using Bpos by (simp add: mult_le_0_iff)
  have "(of_int (2 * (int r * int a)) :: rat) \<le> of_int ((2 * int n + 1) * int b)"
    using U by (simp only: of_int_le_iff)
  then have "2 * (q * B) \<le> (2 * of_nat n + 1) * B" unfolding e2 e3 .
  then have "(2 * q - (2 * of_nat n + 1)) * B \<le> 0" by (simp add: algebra_simps)
  then have hi: "q \<le> of_nat n + 1 / 2" using Bpos by (simp add: mult_le_0_iff)
  show ?thesis
  proof (cases "q = of_nat n + 1 / 2")
    case True
    then have "round q = int n + 1" by (simp add: round_def)
    then have s: "s = Suc n" by (simp add: s_def q_def)
    have "2 * (q * B) = (2 * of_nat n + 1) * B" using True by (simp add: algebra_simps)
    then have "(of_nat (2 * r * a) :: rat) = of_nat ((2 * n + 1) * b)"
      unfolding qB by (simp add: B_def algebra_simps)
    then have "2 * r * a = (2 * n + 1) * b" by (simp only: of_nat_eq_iff)
    then have "2 * r * a = n * (2 * b) + b" by (simp add: algebra_simps)
    then have "halfway r a b" using b by (simp add: halfway_def)
    then show ?thesis using s by simp
  next
    case False
    then have "q < of_nat n + 1 / 2" using hi by simp
    then have "round q = int n"
      using lo by (intro round_unique) simp_all
    then have "s = n" by (simp add: s_def q_def)
    then show ?thesis by simp
  qed
qed

lemma double_to_u32_of_nat:
  assumes "k < 2 ^ 32"
  shows "double_to_u32 (of_nat k) = Some (of_nat k)"
proof -
  have "(of_nat k :: rat) < of_nat (2 ^ 32)" using assms by (simp only: of_nat_less_iff)
  then have "(of_nat k :: rat) < 2 ^ 32" by simp
  moreover have "(- 1 :: rat) < of_nat k"
    by (rule less_le_trans [of _ 0]) simp_all
  ultimately show ?thesis by (simp add: double_to_u32_def)
qed

lemma resize_eval_wide:
  assumes "y < x"
    and "c_round (double_mul (u32_to_double (clamp_u32 x 142 1920))
           (round_to_double (u32_to_double y / u32_to_double x))) = of_nat k"
    and "k < 2 ^ 32"
  shows "resize_nvidia_noise_removal x y = Some (clamp_u32 x 142 1920, of_nat k)"
proof -
  have "x \<noteq> 0" using assms(1) by (metis word_not_simps(1))
  then show ?thesis
    using assms by (simp add: resize_nvidia_noise_removal_def double_div_def u32_to_double_eq_0
        double_to_u32_of_nat Let_def)
qed

lemma resize_eval_tall:
  assumes "\<not> y < x" "y \<noteq> 0"
    and "c_round (double_mul (u32_to_double (clamp_u32 y 80 1080))
           (round_to_double (u32_to_double x / u32_to_double y))) = of_nat k"
    and "k < 2 ^ 32"
  shows "resize_nvidia_noise_removal x y = Some (of_nat k, clamp_u32 y 80 1080)"
  using assms by (simp add: resize_nvidia_noise_removal_def double_div_def u32_to_double_eq_0
        double_to_u32_of_nat Let_def)

lemma fp_3840_2160: "c_round (double_mul 1920 (round_to_double (2160 / 3840))) = 1080"
  by code_simp

lemma resize_3840_2160: "resize_nvidia_noise_removal 3840 2160 = Some (1920, 1080)"
proof -
  have k: "clamp_u32 3840 142 1920 = 1920" by (simp add: clamp_u32_def)
  have "c_round (double_mul (u32_to_double (clamp_u32 3840 142 1920))
           (round_to_double (u32_to_double 2160 / u32_to_double 3840))) = of_nat 1080"
    unfolding k u32_to_double_def using fp_3840_2160 by simp
  from resize_eval_wide [OF _ this] show ?thesis unfolding k by simp
qed

lemma fp_80_40: "c_round (double_mul 142 (round_to_double (40 / 80))) = 71"
  by code_simp

lemma resize_80_40: "resize_nvidia_noise_removal 80 40 = Some (142, 71)"
proof -
  have k: "clamp_u32 80 142 1920 = 142" by (simp add: clamp_u32_def)
  have "c_round (double_mul (u32_to_double (clamp_u32 80 142 1920))
           (round_to_double (u32_to_double 40 / u32_to_double 80))) = of_nat 71"
    unfolding k u32_to_double_def using fp_80_40 by simp
  from resize_eval_wide [OF _ this] show ?thesis unfolding k by simp
qed

lemma fp_26_1440: "c_round (double_mul 1080 (round_to_double (26 / 1440))) = 19"
  by code_simp

lemma resize_26_1440: "resize_nvidia_noise_removal 26 1440 = Some (19, 1080)"
proof -
  have k: "clamp_u32 1440 80 1080 = 1080" by (simp add: clamp_u32_def)
  have "c_round (double_mul (u32_to_double (clamp_u32 1440 80 1080))
           (round_to_double (u32_to_double 26 / u32_to_double 1440))) = of_nat 19"
    unfolding k u32_to_double_def using fp_26_1440 by simp
  from resize_eval_tall [OF _ _ this] show ?thesis unfolding k by simp
qed

lemma fp_10000_1: "c_round (double_mul 1920 (round_to_double (1 / 10000))) = 0"
  by code_simp

lemma resize_10000_1: "resize_nvidia_noise_removal 10000 1 = Some (1920, 0)"
proof -
  have k: "clamp_u32 10000 142 1920 = 1920" by (simp add: clamp_u32_def)
  have "c_round (double_mul (u32_to_double (clamp_u32 10000 142 1920))
           (round_to_double (u32_to_double 1 / u32_to_double 10000))) = of_nat 0"
    unfolding k u32_to_double_def using fp_10000_1 by simp
  from resize_eval_wide [OF _ this] show ?thesis unfolding k by simp
qed

lemma fp_10000_9999: "c_round (double_mul 1920 (round_to_double (9999 / 10000))) = 1920"
  by code_simp

lemma resize_10000_9999: "resize_nvidia_noise_removal 10000 9999 = Some (1920, 1920)"
proof -
  have k: "clamp_u32 10000 142 1920 = 1920" by (simp add: clamp_u32_def)
  have "c_round (double_mul (u32_to_double (clamp_u32 10000 142 1920))
           (round_to_double (u32_to_double 9999 / u32_to_double 10000))) = of_nat 1920"
    unfolding k u32_to_double_def using fp_10000_9999 by simp
  from resize_eval_wide [OF _ this] show ?thesis unfolding k by simp
qed

lemma fp_1920_1920: "c_round (double_mul 1080 (round_to_double (1920 / 1920))) = 1080"
  by code_simp

lemma resize_1920_1920: "resize_nvidia_noise_removal 1920 1920 = Some (1080, 1080)"
proof -
  have k: "clamp_u32 1920 80 1080 = 1080" by (simp add: clamp_u32_def)
  have "c_round (double_mul (u32_to_double (clamp_u32 1920 80 1080))
           (round_to_double (u32_to_double 1920 / u32_to_double 1920))) = of_nat 1080"
    unfolding k u32_to_double_def using fp_1920_1920 by simp
  from resize_eval_tall [OF _ _ this] show ?thesis unfolding k by simp
qed


lemma spec_26_1440: "size_policy_spec 26 1440 = (20, 1080)"
  by (simp add: size_policy_spec_def round_def)

lemma unat_clamp_wide: "unat (clamp_u32 x 142 1920) = max 142 (min 1920 (unat x))"
  by (simp add: unat_clamp_u32)

lemma unat_clamp_tall: "unat (clamp_u32 y 80 1080) = max 80 (min 1080 (unat y))"
  by (simp add: unat_clamp_u32)

text \<open>
  Claim C3, as the code has it. For a width and a height of at least 1 the policy of
  NvidiaVideoNoiseRemoval returns the dominant axis clamped as the specification says
  (\<open>[142, 1920]\<close> for a dominant width, \<open>[80, 1080]\<close> otherwise). The other axis
  is computed in double arithmetic as \<open>clamped \<times> (other / dominant)\<close>: it is the
  specification's \<open>round (clamped \<times> other / dominant)\<close>, except that where this
  quotient lies exactly half-way between two integers it may be one less. The policy
  maps \<open>(3840, 2160)\<close> to \<open>(1920, 1080)\<close> and \<open>(80, 40)\<close> to \<open>(142, 71)\<close>, and
  every other provider keeps the size.
\<close>

theorem size_policy_formula:
  assumes x: "x \<noteq> 0" and y: "y \<noteq> 0"
  shows "(\<exists>w' h'. restrict_size NVIDIA_VIDEO_NOISE_REMOVAL x y = Some (w', h') \<and>
           (if y < x
            then unat w' = fst (size_policy_spec (unat x) (unat y)) \<and>
                 (unat h' = snd (size_policy_spec (unat x) (unat y)) \<or>
                  halfway (unat w') (unat y) (unat x) \<and>
                  Suc (unat h') = snd (size_policy_spec (unat x) (unat y)))
            else unat h' = snd (size_policy_spec (unat x) (unat y)) \<and>
                 (unat w' = fst (size_policy_spec (unat x) (unat y)) \<or>
                  halfway (unat h') (unat x) (unat y) \<and>
                  Suc (unat w') = fst (size_policy_spec (unat x) (unat y)))))
       \<and> restrict_size NVIDIA_VIDEO_NOISE_REMOVAL 3840 2160 = Some (1920, 1080)
       \<and> restrict_size NVIDIA_VIDEO_NOISE_REMOVAL 80 40 = Some (142, 71)
       \<and> (\<forall>p. p \<noteq> NVIDIA_VIDEO_NOISE_REMOVAL \<longrightarrow> restrict_size p x y = Some (x, y))"
proof -
  have xpos: "0 < unat x" and ypos: "0 < unat y" using x y by (simp_all add: unat_gt_0)
  have general: "\<exists>w' h'. restrict_size NVIDIA_VIDEO_NOISE_REMOVAL x y = Some (w', h') \<and>
           (if y < x
            then unat w' = fst (size_policy_spec (unat x) (unat y)) \<and>
                 (unat h' = snd (size_policy_spec (unat x) (unat y)) \<or>
                  halfway (unat w') (unat y) (unat x) \<and>
                  Suc (unat h') = snd (size_policy_spec (unat x) (unat y)))
            else unat h' = snd (size_policy_spec (unat x) (unat y)) \<and>
                 (unat w' = fst (size_policy_spec (unat x) (unat y)) \<or>
                  halfway (unat h') (unat x) (unat y) \<and>
                  Suc (unat w') = fst (size_policy_spec (unat x) (unat y))))"
  proof (cases "y < x")
    case True
    then have lt: "unat y < unat x" by (simp add: word_less_nat_alt)
    from resize_width_dominant [OF True] obtain n where
      r: "resize_nvidia_noise_removal x y = Some (clamp_u32 x 142 1920, n)"
      and near: "nearest_scaled (unat n) (unat (clamp_u32 x 142 1920)) (unat y) (unat x)"
      by blast
    have sp: "size_policy_spec (unat x) (unat y) =
        (unat (clamp_u32 x 142 1920),
         nat (round (of_nat (unat (clamp_u32 x 142 1920)) * of_nat (unat y) / of_nat (unat x) :: rat)))"
      using lt by (simp add: size_policy_spec_def unat_clamp_wide Let_def)
    from nearest_scaled_round [OF near xpos] show ?thesis
      using True r by (auto simp add: restrict_size_def sp)
  next
    case False
    then have nlt: "\<not> unat y < unat x" by (simp add: word_less_nat_alt)
    from resize_height_dominant [OF False y] obtain n where
      r: "resize_nvidia_noise_removal x y = Some (n, clamp_u32 y 80 1080)"
      and near: "nearest_scaled (unat n) (unat (clamp_u32 y 80 1080)) (unat x) (unat y)"
      by blast
    have sp: "size_policy_spec (unat x) (unat y) =
        (nat (round (of_nat (unat (clamp_u32 y 80 1080)) * of_nat (unat x) / of_nat (unat y) :: rat)),
         unat (clamp_u32 y 80 1080))"
      using nlt by (simp add: size_policy_spec_def unat_clamp_tall Let_def)
    from nearest_scaled_round [OF near ypos] show ?thesis
      using False r by (auto simp add: restrict_size_def sp)
  qed
  show ?thesis
    using general resize_3840_2160 resize_80_40 by (simp add: restrict_size_def)
qed

text \<open>
  The theorem at \<open>(26, 1440)\<close>, a half-way input: \<open>1080 \<times> 26 / 1440 = 19.5\<close>, the
  specification rounds to 20 and the code returns 19.
\<close>

theorem size_policy_formula_witness:
  "(26 :: u32) \<noteq> 0 \<and> (1440 :: u32) \<noteq> 0 \<and>
   restrict_size NVIDIA_VIDEO_NOISE_REMOVAL 26 1440 = Some (19, 1080) \<and>
   halfway 1080 26 1440 \<and> size_policy_spec 26 1440 = (20, 1080) \<and>
   restrict_size AUTOMATIC 26 1440 = Some (26, 1440)"
proof -
  have a: "(26 :: u32) \<noteq> 0" and b: "(1440 :: u32) \<noteq> 0" by simp_all
  have n: "AUTOMATIC \<noteq> NVIDIA_VIDEO_NOISE_REMOVAL"
    by (simp add: AUTOMATIC_def NVIDIA_VIDEO_NOISE_REMOVAL_def)
  have h: "halfway 1080 26 1440" by (simp add: halfway_def)
  from size_policy_formula [OF a b] n have "restrict_size AUTOMATIC 26 1440 = Some (26, 1440)"
    by blast
  then show ?thesis
    using resize_26_1440 spec_26_1440 h by (simp add: restrict_size_def)
qed

text \<open>
  Claim C3 as stated fails: at \<open>(26, 1440)\<close> the quotient \<open>26 / 1440\<close> rounds down
  as a double, the product is just below \<open>19.5\<close>, and the result is not the exact
  formula's.
\<close>

theorem size_policy_formula_counterexample:
  "restrict_size NVIDIA_VIDEO_NOISE_REMOVAL 26 1440 = Some (19, 1080) \<and>
   size_policy_spec 26 1440 = (20, 1080)"
  using resize_26_1440 spec_26_1440 by (simp add: restrict_size_def)

lemma nearest_scaled_aspect:
  assumes near: "nearest_scaled n r a b" and r: "0 < r" and b: "0 < b"
  shows "\<bar>of_nat n / of_nat r - of_nat a / of_nat b\<bar> \<le> 1 / (2 * of_nat r :: rat)"
proof -
  define R :: rat where "R = of_nat r"
  define B :: rat where "B = of_nat b"
  define D :: rat where "D = of_nat n * B - R * of_nat a"
  have R: "0 < R" and B: "0 < B" using r b by (simp_all add: R_def B_def)
  have "(of_int (2 * \<bar>int r * int a - int n * int b\<bar>) :: rat) \<le> of_int (int b)"
    using near unfolding nearest_scaled_def by (simp only: of_int_le_iff)
  then have D: "2 * \<bar>D\<bar> \<le> B"
    by (simp add: D_def R_def B_def abs_minus_commute)
  have "of_nat n / R - of_nat a / B = D / (R * B)"
    using R B by (simp add: D_def field_simps)
  then have "\<bar>of_nat n / R - of_nat a / B\<bar> = \<bar>D\<bar> / (R * B)"
    using R B by (simp add: abs_mult)
  also have "\<dots> \<le> (B / 2) / (R * B)"
    using D R B by (intro divide_right_mono) auto
  also have "\<dots> = 1 / (2 * R)" using R B by simp
  finally show ?thesis by (simp add: R_def B_def)
qed

text \<open>
  What the policy does bound. The dominant axis lies in its clamp range; the other
  axis does not exceed it and keeps the aspect ratio in the sense
  \<open>\<bar>other' / dominant' - other / dominant\<bar> \<le> 1 / (2 \<times> dominant')\<close>. The other axis
  is not clamped.
\<close>

lemma restrict_size_dominant_axis:
  assumes x: "x \<noteq> 0" and y: "y \<noteq> 0"
  shows "\<exists>w' h'. restrict_size p x y = Some (w', h') \<and>
     (if p = NVIDIA_VIDEO_NOISE_REMOVAL then
        (if y < x
         then 142 \<le> unat w' \<and> unat w' \<le> 1920 \<and> unat h' \<le> unat w' \<and>
              \<bar>of_nat (unat h') / of_nat (unat w') - of_nat (unat y) / of_nat (unat x)\<bar>
                \<le> 1 / (2 * of_nat (unat w') :: rat)
         else 80 \<le> unat h' \<and> unat h' \<le> 1080 \<and> unat w' \<le> unat h' \<and>
              \<bar>of_nat (unat w') / of_nat (unat h') - of_nat (unat x) / of_nat (unat y)\<bar>
                \<le> 1 / (2 * of_nat (unat h') :: rat))
      else w' = x \<and> h' = y)"
proof (cases "p = NVIDIA_VIDEO_NOISE_REMOVAL")
  case False
  then show ?thesis by (simp add: restrict_size_def)
next
  case p: True
  have xpos: "0 < unat x" and ypos: "0 < unat y" using x y by (simp_all add: unat_gt_0)
  show ?thesis
  proof (cases "y < x")
    case True
    then have le: "unat y \<le> unat x" by (simp add: word_less_nat_alt)
    from resize_width_dominant [OF True] obtain n where
      r: "resize_nvidia_noise_removal x y = Some (clamp_u32 x 142 1920, n)"
      and near: "nearest_scaled (unat n) (unat (clamp_u32 x 142 1920)) (unat y) (unat x)"
      by blast
    have c1: "142 \<le> unat (clamp_u32 x 142 1920)" and c2: "unat (clamp_u32 x 142 1920) \<le> 1920"
      by (simp_all add: unat_clamp_wide)
    have cpos: "0 < unat (clamp_u32 x 142 1920)" using c1 by linarith
    note nearest_scaled_le [OF near le xpos] nearest_scaled_aspect [OF near cpos xpos]
    then show ?thesis using p True r c1 c2 by (simp add: restrict_size_def)
  next
    case False
    then have le: "unat x \<le> unat y" by (simp add: word_less_nat_alt)
    from resize_height_dominant [OF False y] obtain n where
      r: "resize_nvidia_noise_removal x y = Some (n, clamp_u32 y 80 1080)"
      and near: "nearest_scaled (unat n) (unat (clamp_u32 y 80 1080)) (unat x) (unat y)"
      by blast
    have c1: "80 \<le> unat (clamp_u32 y 80 1080)" and c2: "unat (clamp_u32 y 80 1080) \<le> 1080"
      by (simp_all add: unat_clamp_tall)
    have cpos: "0 < unat (clamp_u32 y 80 1080)" using c1 by linarith
    note nearest_scaled_le [OF near le ypos] nearest_scaled_aspect [OF near cpos ypos]
    then show ?thesis using p False r c1 c2 by (simp add: restrict_size_def)
  qed
qed

lemma fp_4_1: "c_round (double_mul 142 (round_to_double (1 / 4))) = 36"
  by code_simp

lemma resize_4_1: "resize_nvidia_noise_removal 4 1 = Some (142, 36)"
proof -
  have k: "clamp_u32 4 142 1920 = 142" by (simp add: clamp_u32_def)
  have "c_round (double_mul (u32_to_double (clamp_u32 4 142 1920))
           (round_to_double (u32_to_double 1 / u32_to_double 4))) = of_nat 36"
    unfolding k u32_to_double_def using fp_4_1 by simp
  from resize_eval_wide [OF _ this] show ?thesis unfolding k by simp
qed

text \<open>
  Claim C4 says that for a width and a height of at least 1 both results are at least
  1 and inside the clamp range, and that \<open>\<bar>w' / h' - w / h\<bar> \<le> 1 / min w' h'\<close>. The
  code clamps the dominant axis only. At \<open>(10000, 1)\<close> it returns the height 0; at
  \<open>(4, 1)\<close> it returns \<open>(142, 36)\<close>, whose height is below the vertical limit 80
  that the comment of \<^verbatim>\<open>resize_nvidia_noise_removal\<close> names and whose aspect ratio
  misses the bound, while \<open>(320, 80)\<close> would meet all three demands.
\<close>

theorem size_policy_minor_axis_unclamped:
  "restrict_size NVIDIA_VIDEO_NOISE_REMOVAL 10000 1 = Some (1920, 0) \<and>
   restrict_size NVIDIA_VIDEO_NOISE_REMOVAL 4 1 = Some (142, 36) \<and>
   \<not> \<bar>142 / 36 - 4 / 1\<bar> \<le> (1 / 36 :: rat) \<and>
   \<bar>320 / 80 - 4 / 1\<bar> \<le> (1 / 80 :: rat)"
  using resize_10000_1 resize_4_1 by (simp add: restrict_size_def)

text \<open>
  Where a second application of the policy changes nothing: everywhere but at the
  square \<open>(1920, 1920)\<close>, which only a width-dominant input produces.
\<close>

lemma restrict_size_fixed_point:
  assumes x: "x \<noteq> 0" and y: "y \<noteq> 0"
    and r: "restrict_size p x y = Some (w', h')"
    and ne: "\<not> (p = NVIDIA_VIDEO_NOISE_REMOVAL \<and> w' = 1920 \<and> h' = 1920)"
  shows "restrict_size p w' h' = Some (w', h')"
proof (cases "p = NVIDIA_VIDEO_NOISE_REMOVAL")
  case False
  then show ?thesis using r by (simp add: restrict_size_def)
next
  case p: True
  have xpos: "0 < unat x" and ypos: "0 < unat y" using x y by (simp_all add: unat_gt_0)
  have rr: "resize_nvidia_noise_removal x y = Some (w', h')" using r p by (simp add: restrict_size_def)
  have "resize_nvidia_noise_removal w' h' = Some (w', h')"
  proof (cases "y < x")
    case True
    then have lt: "unat y < unat x" by (simp add: word_less_nat_alt)
    from resize_width_dominant [OF True] rr
    have w': "w' = clamp_u32 x 142 1920"
      and near: "nearest_scaled (unat h') (unat w') (unat y) (unat x)"
      by auto
    have c1: "142 \<le> unat w'" and c2: "unat w' \<le> 1920"
      unfolding w' by (simp_all add: unat_clamp_wide)
    have le: "unat h' \<le> unat w'" using nearest_scaled_le [OF near _ xpos] lt by simp
    have neq: "unat h' \<noteq> unat w'"
    proof
      assume e: "unat h' = unat w'"
      then have "2 * unat w' \<le> unat x" using nearest_scaled_full [of "unat w'" "unat y" "unat x"] near lt by simp
      then have "unat w' = 1920" unfolding w' by (simp add: unat_clamp_wide split: if_splits)
      then have "w' = 1920" "h' = 1920" using e by (simp_all add: word_unat_eq_iff)
      then show False using ne p by simp
    qed
    then have hw: "h' < w'" using le by (simp add: word_less_nat_alt)
    from resize_width_dominant [OF hw] obtain n where
      r2: "resize_nvidia_noise_removal w' h' = Some (clamp_u32 w' 142 1920, n)"
      and near2: "nearest_scaled (unat n) (unat (clamp_u32 w' 142 1920)) (unat h') (unat w')"
      by blast
    have "unat (clamp_u32 w' 142 1920) = unat w'" using c1 c2 by (simp add: unat_clamp_wide)
    then have cw: "clamp_u32 w' 142 1920 = w'" by (simp add: word_unat_eq_iff)
    have "unat n = unat h'" using nearest_scaled_same [of "unat n" "unat w'" "unat h'"] near2 c1 unfolding cw by simp
    then have "n = h'" by (simp add: word_unat_eq_iff)
    then show ?thesis using r2 cw by simp
  next
    case False
    then have le: "unat x \<le> unat y" by (simp add: word_less_nat_alt)
    from resize_height_dominant [OF False y] rr
    have h': "h' = clamp_u32 y 80 1080"
      and near: "nearest_scaled (unat w') (unat h') (unat x) (unat y)"
      by auto
    have c1: "80 \<le> unat h'" and c2: "unat h' \<le> 1080"
      unfolding h' by (simp_all add: unat_clamp_tall)
    have wh: "unat w' \<le> unat h'" using nearest_scaled_le [OF near le ypos] .
    then have nlt: "\<not> h' < w'" by (simp add: word_less_nat_alt)
    have h0: "h' \<noteq> 0" using c1 by (metis not_numeral_le_zero unat_0 )
    from resize_height_dominant [OF nlt h0] obtain n where
      r2: "resize_nvidia_noise_removal w' h' = Some (n, clamp_u32 h' 80 1080)"
      and near2: "nearest_scaled (unat n) (unat (clamp_u32 h' 80 1080)) (unat w') (unat h')"
      by blast
    have "unat (clamp_u32 h' 80 1080) = unat h'" using c1 c2 by (simp add: unat_clamp_tall)
    then have ch: "clamp_u32 h' 80 1080 = h'" by (simp add: word_unat_eq_iff)
    have "unat n = unat w'" using nearest_scaled_same [of "unat n" "unat h'" "unat w'"] near2 c1 unfolding ch by simp
    then have "n = w'" by (simp add: word_unat_eq_iff)
    then show ?thesis using r2 ch by simp
  qed
  then show ?thesis using p by (simp add: restrict_size_def)
qed

text \<open>
  Claim C5 says that the policy is idempotent. The width-dominant branch rounds the
  height of \<open>(10000, 9999)\<close> up to 1920, above the vertical limit 1080; the result is a
  square, which the height-dominant branch then clamps: \<open>(1920, 1920)\<close> goes to
  \<open>(1080, 1080)\<close>.
\<close>

theorem size_policy_not_idempotent:
  "restrict_size NVIDIA_VIDEO_NOISE_REMOVAL 10000 9999 = Some (1920, 1920) \<and>
   restrict_size NVIDIA_VIDEO_NOISE_REMOVAL 1920 1920 = Some (1080, 1080)"
  using resize_10000_9999 resize_1920_1920 by (simp add: restrict_size_def)

section \<open>The sample histories, evaluated\<close>

lemmas settings_defs = create_def update_def requested_provider_def switch_provider_def
  threadpool_push_def threadpool_pop_def provider_priority_def is_provider_available_def
  static_cast_provider_def
  AUTOMATIC_def NVIDIA_VIDEO_NOISE_REMOVAL_def registry_def

lemmas task_defs = threadpool_run_def task_switch_provider_def load_nvidia_noise_removal_def
  unload_nvidia_noise_removal_def unmap_and_dealloc_def emit_def

lemmas process_defs = process_nvidia_noise_removal_def recreate_input_def recreate_output_def
  make_texture_def stale_def unmap_and_dealloc_def emit_def

lemmas render_defs = video_render_def capture_input_def draw_result_def
  obs_source_get_base_width_def obs_source_get_base_height_def denoise_provider_to_string_def

lemma ready_nvidia_eq:
  "ready_nvidia =
    \<lparr>m_size = (1, 1), m_provider_ready = True, m_provider = 1, m_provider_task = Some 0,
     m_input = \<lparr>tex_id = 0, tex_width = 1, tex_height = 1, tex_pixels = []\<rparr>,
     m_output = None, m_nvcuda = True, m_nvcvi = True, m_nvvfx = True,
     m_nvidia_input = None, m_nvidia_output = None,
     m_nvidia_cvi_input = \<lparr>cvi_width = 0, cvi_height = 0\<rparr>,
     m_nvidia_cvi_output = \<lparr>cvi_width = 0, cvi_height = 0\<rparr>, pool = [],
     next_handle = 1, next_tex = 1, calls = []\<rparr>"
  by (simp add: ready_nvidia_def settings_defs task_defs sdk_present_def)

lemma fp_1280_720: "c_round (double_mul 1280 (round_to_double (720 / 1280))) = 720"
  by code_simp

lemma resize_1280_720: "resize_nvidia_noise_removal 1280 720 = Some (1280, 720)"
proof -
  have k: "clamp_u32 1280 142 1920 = 1280" by (simp add: clamp_u32_def)
  have "c_round (double_mul (u32_to_double (clamp_u32 1280 142 1920))
           (round_to_double (u32_to_double 720 / u32_to_double 1280))) = of_nat 720"
    unfolding k u32_to_double_def using fp_1280_720 by simp
  from resize_eval_wide [OF _ this] show ?thesis unfolding k by simp
qed

lemma after_frame_eq:
  "after_frame =
    \<lparr>m_size = (1280, 720), m_provider_ready = True, m_provider = 1, m_provider_task = Some 0,
     m_input = \<lparr>tex_id = 0, tex_width = 1, tex_height = 1, tex_pixels = []\<rparr>,
     m_output = Some \<lparr>tex_id = 2, tex_width = 1280, tex_height = 720, tex_pixels = []\<rparr>,
     m_nvcuda = True, m_nvcvi = True, m_nvvfx = True,
     m_nvidia_input = Some \<lparr>tex_id = 1, tex_width = 1280, tex_height = 720, tex_pixels = [1, 2, 3]\<rparr>,
     m_nvidia_output = Some \<lparr>tex_id = 2, tex_width = 1280, tex_height = 720, tex_pixels = []\<rparr>,
     m_nvidia_cvi_input = \<lparr>cvi_width = 1280, cvi_height = 720\<rparr>,
     m_nvidia_cvi_output = \<lparr>cvi_width = 1280, cvi_height = 720\<rparr>, pool = [],
     next_handle = 1, next_tex = 3,
     calls = [Process_filter_begin, Process_filter_end 1280 720, Init_from_texture 1,
       Map_resource \<lparr>cvi_width = 1280, cvi_height = 720\<rparr>, Init_from_texture 2,
       Map_resource \<lparr>cvi_width = 1280, cvi_height = 720\<rparr>, Copy_texture 1 0,
       Set_image False 2, Draw_sprite 1280 720]\<rparr>"
  by (simp add: after_frame_def ready_nvidia_eq render_defs process_defs restrict_size_def
      resize_1280_720 NVIDIA_VIDEO_NOISE_REMOVAL_def frame_720p_def sdk_present_def)

lemma create_none_eq:
  "create registry None =
    \<lparr>m_size = (1, 1), m_provider_ready = False, m_provider = 0, m_provider_task = None,
     m_input = \<lparr>tex_id = 0, tex_width = 1, tex_height = 1, tex_pixels = []\<rparr>,
     m_output = None, m_nvcuda = False, m_nvcvi = False, m_nvvfx = False,
     m_nvidia_input = None, m_nvidia_output = None,
     m_nvidia_cvi_input = \<lparr>cvi_width = 0, cvi_height = 0\<rparr>,
     m_nvidia_cvi_output = \<lparr>cvi_width = 0, cvi_height = 0\<rparr>, pool = [],
     next_handle = 0, next_tex = 1, calls = []\<rparr>"
  by (simp add: settings_defs)

lemma ready_unlisted_eq:
  "ready_unlisted =
    \<lparr>m_size = (1, 1), m_provider_ready = True, m_provider = 7, m_provider_task = Some 0,
     m_input = \<lparr>tex_id = 0, tex_width = 1, tex_height = 1, tex_pixels = []\<rparr>,
     m_output = None, m_nvcuda = False, m_nvcvi = False, m_nvvfx = False,
     m_nvidia_input = None, m_nvidia_output = None,
     m_nvidia_cvi_input = \<lparr>cvi_width = 0, cvi_height = 0\<rparr>,
     m_nvidia_cvi_output = \<lparr>cvi_width = 0, cvi_height = 0\<rparr>, pool = [],
     next_handle = 1, next_tex = 1, calls = []\<rparr>"
  by (simp add: ready_unlisted_def settings_defs task_defs sdk_present_def)

section \<open>Render tick and settings\<close>

text \<open>
  Claim C9. At every render tick where the ready flag is false, or the upstream target
  is absent, or the upstream base width or height is zero, \<^verbatim>\<open>video_render\<close> tells the
  host to skip the filter and does nothing else: the only call is the skip, and the
  state is otherwise the one before, so no size was negotiated and the backend was
  not invoked.
\<close>

theorem video_render_skips_without_backend:
  assumes "\<not> m_provider_ready w \<or> f_target fr = None \<or>
           obs_source_get_base_width (f_target fr) = 0 \<or>
           obs_source_get_base_height (f_target fr) = 0"
  shows "video_render env fr w = (None, emit Skip_video_filter w) \<and>
         calls (snd (video_render env fr w)) = calls w @ [Skip_video_filter] \<and>
         m_size (snd (video_render env fr w)) = m_size w"
proof -
  have "video_render env fr w = (None, emit Skip_video_filter w)"
    using assms
    by (auto simp add: video_render_def obs_source_get_base_width_def
        obs_source_get_base_height_def Let_def)
  then show ?thesis by (simp add: emit_def)
qed

text \<open>
  The theorem at three ticks: an instance that is not ready, a ready instance without
  a target, and a ready instance whose target has height 0.
\<close>

theorem video_render_skips_without_backend_witness:
  "\<not> m_provider_ready (create registry None) \<and>
   video_render sdk_present frame_720p (create registry None)
     = (None, emit Skip_video_filter (create registry None)) \<and>
   f_target (frame_720p\<lparr>f_target := None\<rparr>) = None \<and>
   video_render sdk_present (frame_720p\<lparr>f_target := None\<rparr>) ready_nvidia
     = (None, emit Skip_video_filter ready_nvidia) \<and>
   obs_source_get_base_height (f_target (frame_720p\<lparr>f_target := Some (1280, 0)\<rparr>)) = 0 \<and>
   video_render sdk_present (frame_720p\<lparr>f_target := Some (1280, 0)\<rparr>) ready_nvidia
     = (None, emit Skip_video_filter ready_nvidia)"
proof -
  have a: "\<not> m_provider_ready (create registry None)" by (simp add: create_none_eq)
  have b: "f_target (frame_720p\<lparr>f_target := None\<rparr>) = None" by simp
  have c: "obs_source_get_base_height (f_target (frame_720p\<lparr>f_target := Some (1280, 0)\<rparr>)) = 0"
    by (simp add: obs_source_get_base_height_def)
  show ?thesis
    using a b c
      video_render_skips_without_backend [of "create registry None" frame_720p sdk_present]
      video_render_skips_without_backend [of ready_nvidia "frame_720p\<lparr>f_target := None\<rparr>" sdk_present]
      video_render_skips_without_backend [of ready_nvidia "frame_720p\<lparr>f_target := Some (1280, 0)\<rparr>" sdk_present]
    by blast
qed

text \<open>
  Claim C10. Every \<^verbatim>\<open>update\<close> whose requested provider, after \<^verbatim>\<open>AUTOMATIC\<close> is
  resolved against the priority list, equals the current provider leaves the whole
  state as it is: no task is scheduled, and backend, ready flag and task handle keep
  their values. So does every sequence of such calls.
\<close>

theorem update_same_provider_noop:
  assumes "\<forall>d \<in> set ds. requested_provider factory d = m_provider w"
  shows "exec factory (map Update ds) w = w"
  using assms by (induction ds) (simp_all add: update_def)

text \<open>
  The theorem for a ready instance of provider 1 and the settings 0 (Automatic,
  resolved to 1) and 1.
\<close>

theorem update_same_provider_noop_witness:
  "requested_provider registry 0 = m_provider ready_nvidia \<and>
   requested_provider registry 1 = m_provider ready_nvidia \<and>
   exec registry (map Update [0, 1]) ready_nvidia = ready_nvidia \<and>
   pool (exec registry (map Update [0, 1]) ready_nvidia) = []"
proof -
  have a: "requested_provider registry 0 = m_provider ready_nvidia"
    and b: "requested_provider registry 1 = m_provider ready_nvidia"
    by (simp_all add: ready_nvidia_eq settings_defs)
  then have "\<forall>d \<in> set [0, 1]. requested_provider registry d = m_provider ready_nvidia"
    by simp
  from update_same_provider_noop [OF this] have "exec registry (map Update [0, 1]) ready_nvidia = ready_nvidia" .
  then show ?thesis using a b by (simp add: ready_nvidia_eq)
qed

section \<open>Provider backend\<close>

text \<open>
  What a successful \<^verbatim>\<open>unload_nvidia_noise_removal\<close> leaves: no surfaces and no SDK
  handles; images without a width cause no call. Whatever the platform, the next
  unload stops at the null \<^verbatim>\<open>_nvcuda\<close>.
\<close>

lemma unload_releases_backend:
  assumes "unload_nvidia_noise_removal env w = (None, w')"
  shows "m_nvidia_input w' = None \<and> m_nvidia_output w' = None \<and>
         \<not> m_nvcuda w' \<and> \<not> m_nvcvi w' \<and> \<not> m_nvvfx w' \<and>
         (cvi_width (m_nvidia_cvi_input w) = 0 \<and> cvi_width (m_nvidia_cvi_output w) = 0
            \<longrightarrow> calls w' = calls w) \<and>
         unload_nvidia_noise_removal env' w' = (Some Null_dereference, w')"
  using assms
  by (auto simp add: unload_nvidia_noise_removal_def unmap_and_dealloc_def emit_def Let_def
      split: if_splits prod.splits sum.splits)

text \<open>
  Claim C8 says that unload on an unloaded backend is a no-op that completes without
  error. The function tests the width of each image before it releases it, but not
  the SDK handles: after a successful unload of an instance that has rendered a
  frame, a second unload dereferences the null \<^verbatim>\<open>_nvcuda\<close>.
\<close>

theorem unload_twice_dereferences_null:
  "fst (unload_nvidia_noise_removal sdk_present after_frame) = None \<and>
   fst (unload_nvidia_noise_removal sdk_present
          (snd (unload_nvidia_noise_removal sdk_present after_frame))) = Some Null_dereference"
  by (simp add: after_frame_eq task_defs sdk_present_def)

lemma recreate_input_frame:
  assumes "recreate_input env w = (r, w1)"
  shows "m_size w1 = m_size w \<and> m_input w1 = m_input w \<and> m_output w1 = m_output w \<and>
         m_nvidia_output w1 = m_nvidia_output w \<and> m_nvidia_cvi_output w1 = m_nvidia_cvi_output w \<and>
         m_provider w1 = m_provider w \<and> m_provider_ready w1 = m_provider_ready w \<and>
         m_provider_task w1 = m_provider_task w \<and> pool w1 = pool w \<and> next_handle w1 = next_handle w \<and>
         m_nvcuda w1 = m_nvcuda w \<and> m_nvcvi w1 = m_nvcvi w \<and> m_nvvfx w1 = m_nvvfx w"
  using assms
  by (auto simp add: recreate_input_def unmap_and_dealloc_def make_texture_def emit_def Let_def
      split: if_splits prod.splits sum.splits)

lemma recreate_input_calls:
  assumes "recreate_input env w = (r, w1)"
  shows "\<exists>cs. calls w1 = calls w @ cs \<and> Skip_video_filter \<notin> set cs \<and>
           (r = None \<longrightarrow> list_all image_call cs)"
  using assms
  by (auto simp add: recreate_input_def unmap_and_dealloc_def make_texture_def emit_def Let_def
      split: if_splits prod.splits sum.splits)

lemma recreate_input_ok:
  assumes "recreate_input env w = (None, w1)"
  shows "\<exists>t. m_nvidia_input w1 = Some t \<and> tex_width t = fst (m_size w) \<and>
           tex_height t = snd (m_size w)"
  using assms
  by (auto simp add: recreate_input_def unmap_and_dealloc_def make_texture_def emit_def Let_def
      stale_def split: if_splits prod.splits sum.splits option.splits)

lemma recreate_output_frame:
  assumes "recreate_output env w = (r, w1)"
  shows "m_size w1 = m_size w \<and> m_input w1 = m_input w \<and> m_output w1 = m_output w \<and>
         m_nvidia_input w1 = m_nvidia_input w \<and> m_nvidia_cvi_input w1 = m_nvidia_cvi_input w \<and>
         m_provider w1 = m_provider w \<and> m_provider_ready w1 = m_provider_ready w \<and>
         m_provider_task w1 = m_provider_task w \<and> pool w1 = pool w \<and> next_handle w1 = next_handle w \<and>
         m_nvcuda w1 = m_nvcuda w \<and> m_nvcvi w1 = m_nvcvi w \<and> m_nvvfx w1 = m_nvvfx w"
  using assms
  by (auto simp add: recreate_output_def unmap_and_dealloc_def make_texture_def emit_def Let_def
      split: if_splits prod.splits sum.splits)

lemma recreate_output_calls:
  assumes "recreate_output env w = (r, w1)"
  shows "\<exists>cs. calls w1 = calls w @ cs \<and> Skip_video_filter \<notin> set cs \<and>
           (r = None \<longrightarrow> list_all image_call cs)"
  using assms
  by (auto simp add: recreate_output_def unmap_and_dealloc_def make_texture_def emit_def Let_def
      split: if_splits prod.splits sum.splits)

lemma recreate_output_ok:
  assumes "recreate_output env w = (None, w1)"
  shows "\<exists>t. m_nvidia_output w1 = Some t \<and> tex_width t = fst (m_size w) \<and>
           tex_height t = snd (m_size w) \<and>
           (if stale (m_nvidia_output w) (m_size w) then tex_pixels t = []
            else m_nvidia_output w = Some t)"
  using assms
  by (auto simp add: recreate_output_def unmap_and_dealloc_def make_texture_def emit_def Let_def
      stale_def split: if_splits prod.splits sum.splits option.splits)

lemma process_frame:
  assumes "process_nvidia_noise_removal env w = (r, w')"
  shows "m_size w' = m_size w \<and> m_input w' = m_input w \<and> m_output w' = m_output w \<and>
         m_provider w' = m_provider w \<and> m_provider_ready w' = m_provider_ready w \<and>
         m_provider_task w' = m_provider_task w \<and> pool w' = pool w \<and> next_handle w' = next_handle w \<and>
         m_nvcuda w' = m_nvcuda w \<and> m_nvcvi w' = m_nvcvi w \<and> m_nvvfx w' = m_nvvfx w"
proof (cases "m_nvcuda w")
  case False
  then show ?thesis using assms by (simp add: process_nvidia_noise_removal_def)
next
  case True
  obtain r1 w1 where a: "recreate_input env w = (r1, w1)" by (cases "recreate_input env w")
  obtain r2 w2 where b: "recreate_output env w1 = (r2, w2)" by (cases "recreate_output env w1")
  note f1 = recreate_input_frame [OF a] and f2 = recreate_output_frame [OF b]
  show ?thesis
    using assms True a b f1 f2
    by (auto simp add: process_nvidia_noise_removal_def emit_def Let_def split: option.splits)
qed

lemma process_calls:
  assumes "process_nvidia_noise_removal env w = (r, w')"
  shows "\<exists>cs. calls w' = calls w @ cs \<and> Skip_video_filter \<notin> set cs \<and>
           ((\<exists>out. r = Inr out) \<longrightarrow> list_all image_call cs)"
proof (cases "m_nvcuda w")
  case False
  then show ?thesis using assms by (auto simp add: process_nvidia_noise_removal_def)
next
  case True
  obtain r1 w1 where a: "recreate_input env w = (r1, w1)" by (cases "recreate_input env w")
  obtain r2 w2 where b: "recreate_output env w1 = (r2, w2)" by (cases "recreate_output env w1")
  from recreate_input_calls [OF a] obtain cs1 where
    c1: "calls w1 = calls w @ cs1" "Skip_video_filter \<notin> set cs1" "r1 = None \<longrightarrow> list_all image_call cs1"
    by blast
  from recreate_output_calls [OF b] obtain cs2 where
    c2: "calls w2 = calls w1 @ cs2" "Skip_video_filter \<notin> set cs2" "r2 = None \<longrightarrow> list_all image_call cs2"
    by blast
  show ?thesis
    using assms True a b c1 c2
    by (auto simp add: process_nvidia_noise_removal_def emit_def Let_def split: option.splits)
qed

text \<open>
  What a returning \<^verbatim>\<open>process_nvidia_noise_removal\<close> establishes: the result is the
  output buffer, never null, of the size \<^verbatim>\<open>_size\<close>, and it is the buffer held before
  unless that was stale; the input buffer has the size \<^verbatim>\<open>_size\<close> and the pixels of the
  captured input; the only calls are those of the image library and the texture copy.
\<close>

lemma process_result:
  assumes "process_nvidia_noise_removal env w = (Inr out, w')"
  shows "out = m_nvidia_output w' \<and>
         (\<exists>t. out = Some t \<and> tex_width t = fst (m_size w) \<and> tex_height t = snd (m_size w) \<and>
              (if stale (m_nvidia_output w) (m_size w) then tex_pixels t = []
               else m_nvidia_output w = Some t)) \<and>
         (\<exists>i. m_nvidia_input w' = Some i \<and> tex_width i = fst (m_size w) \<and>
              tex_height i = snd (m_size w) \<and> tex_pixels i = tex_pixels (m_input w)) \<and>
         list_all image_call (new_calls w w')"
proof -
  have cuda: "m_nvcuda w"
    using assms by (auto simp add: process_nvidia_noise_removal_def split: if_splits)
  obtain r1 w1 where a: "recreate_input env w = (r1, w1)" by (cases "recreate_input env w")
  obtain r2 w2 where b: "recreate_output env w1 = (r2, w2)" by (cases "recreate_output env w1")
  have r1: "r1 = None" and r2: "r2 = None"
    using assms cuda a b
    by (auto simp add: process_nvidia_noise_removal_def Let_def split: option.splits)
  note f1 = recreate_input_frame [OF a] and f2 = recreate_output_frame [OF b]
  from recreate_input_ok [OF a [unfolded r1]] obtain i where
    i: "m_nvidia_input w1 = Some i" "tex_width i = fst (m_size w)" "tex_height i = snd (m_size w)"
    by blast
  have sz: "m_size w1 = m_size w" and keep: "m_nvidia_output w1 = m_nvidia_output w"
    using f1 by simp_all
  from recreate_output_ok [OF b [unfolded r2]] obtain t where
    t: "m_nvidia_output w2 = Some t" "tex_width t = fst (m_size w)" "tex_height t = snd (m_size w)"
       "if stale (m_nvidia_output w) (m_size w) then tex_pixels t = [] else m_nvidia_output w = Some t"
    unfolding sz keep by blast
  have i2: "m_nvidia_input w2 = Some i" using f2 i by simp
  have res: "out = m_nvidia_output w2"
     and w': "w' = emit (Copy_texture (tex_id i) (tex_id (m_input w)))
               (w2\<lparr>m_nvidia_input := Some (i\<lparr>tex_pixels := tex_pixels (m_input w)\<rparr>)\<rparr>)"
    using assms cuda a b r1 r2 i2
    by (auto simp add: process_nvidia_noise_removal_def Let_def)
  from process_calls [OF assms] have "list_all image_call (new_calls w w')"
    by (auto simp add: new_calls_def)
  then show ?thesis
    using res w' t i by (simp add: emit_def)
qed

text \<open>
  Claim C1 says that process runs the denoise step and fails with the no-result error
  exactly when the vendor produced nothing. On an instance that has rendered one frame,
  the next frame makes one call, the copy of the captured input into the input buffer;
  the result is the output buffer as it was, which nothing has written. Where the
  vendor fails (here the mapping of the input image on the first frame), the failure is
  an exception, not a missing result.
\<close>

theorem process_runs_no_denoise_step:
  "fst (process_nvidia_noise_removal sdk_present (capture_input frame_720p_next 1280 720 after_frame))
     = Inr (m_nvidia_output after_frame) \<and>
   m_nvidia_output after_frame
     = Some \<lparr>tex_id = 2, tex_width = 1280, tex_height = 720, tex_pixels = []\<rparr> \<and>
   new_calls (capture_input frame_720p_next 1280 720 after_frame)
     (snd (process_nvidia_noise_removal sdk_present (capture_input frame_720p_next 1280 720 after_frame)))
     = [Copy_texture 1 0] \<and>
   fst (process_nvidia_noise_removal sdk_map_fails (capture_input frame_720p 1280 720
          (ready_nvidia\<lparr>m_size := (1280, 720)\<rparr>)))
     = Inl (Runtime_error ''Error'')"
  by (simp add: after_frame_eq ready_nvidia_eq capture_input_def frame_720p_next_def frame_720p_def
      process_defs new_calls_def sdk_present_def sdk_map_fails_def)

section \<open>Errors of a render tick\<close>

lemma restrict_size_defined:
  assumes "bw \<noteq> 0" "bh \<noteq> 0"
  shows "\<exists>sz. restrict_size p bw bh = Some sz"
proof (cases "bh < bw")
  case True
  from resize_width_dominant [OF True] show ?thesis by (auto simp add: restrict_size_def)
next
  case False
  from resize_height_dominant [OF False assms(2)] show ?thesis by (auto simp add: restrict_size_def)
qed

text \<open>
  Claim C2, as the code has it. \<^verbatim>\<open>video_render\<close> has no handler. For a ready instance
  of NvidiaVideoNoiseRemoval, a target of non-zero size and an accepted filter
  transaction, every error that process raises (a failed unmap, texture creation, image
  initialisation or mapping while a surface is created again) is the error of the
  tick: \<^verbatim>\<open>video_render\<close> ends with that error, in the state process left, and has made no
  skip call.
\<close>

theorem video_render_propagates_errors:
  assumes "m_provider_ready w" "f_target fr = Some (bw, bh)" "bw \<noteq> 0" "bh \<noteq> 0" "f_begin fr"
    and "m_provider w = NVIDIA_VIDEO_NOISE_REMOVAL"
  shows "\<exists>sz. restrict_size (m_provider w) bw bh = Some sz \<and>
     (\<forall>e w3. process_nvidia_noise_removal env
                (capture_input fr bw bh (emit Process_filter_begin (w\<lparr>m_size := sz\<rparr>))) = (Inl e, w3)
        \<longrightarrow> video_render env fr w = (Some e, w3) \<and>
            Skip_video_filter \<notin> set (new_calls w w3))"
proof -
  from restrict_size_defined [OF assms(3,4)] obtain sz where
    sz: "restrict_size (m_provider w) bw bh = Some sz" by blast
  define w2 where "w2 = capture_input fr bw bh (emit Process_filter_begin (w\<lparr>m_size := sz\<rparr>))"
  have c2: "calls w2 = calls w @ [Process_filter_begin, Process_filter_end bw bh]"
    by (simp add: w2_def capture_input_def emit_def)
  have p2: "m_provider w2 = NVIDIA_VIDEO_NOISE_REMOVAL"
    using assms(6) by (simp add: w2_def capture_input_def emit_def)
  have "video_render env fr w = (Some e, w3) \<and> Skip_video_filter \<notin> set (new_calls w w3)"
    if pr: "process_nvidia_noise_removal env w2 = (Inl e, w3)" for e w3
  proof -
    have "video_render env fr w = (Some e, w3)"
      using assms sz pr p2
      by (simp add: video_render_def Let_def obs_source_get_base_width_def
          obs_source_get_base_height_def flip: w2_def)
    moreover from process_calls [OF pr] obtain cs where
      "calls w3 = calls w2 @ cs" "Skip_video_filter \<notin> set cs" by blast
    then have "Skip_video_filter \<notin> set (new_calls w w3)"
      using c2 by (simp add: new_calls_def)
    ultimately show ?thesis by simp
  qed
  then show ?thesis using sz unfolding w2_def by blast
qed

text \<open>
  The theorem on the first frame of a ready instance, where the mapping of the input
  image fails.
\<close>

theorem video_render_propagates_errors_witness:
  "m_provider_ready ready_nvidia \<and> f_target frame_720p = Some (1280, 720) \<and>
   (1280 :: u32) \<noteq> 0 \<and> (720 :: u32) \<noteq> 0 \<and> f_begin frame_720p \<and>
   m_provider ready_nvidia = NVIDIA_VIDEO_NOISE_REMOVAL \<and>
   fst (video_render sdk_map_fails frame_720p ready_nvidia) = Some (Runtime_error ''Error'') \<and>
   Skip_video_filter \<notin> set (new_calls ready_nvidia (snd (video_render sdk_map_fails frame_720p ready_nvidia)))"
proof -
  have a: "m_provider_ready ready_nvidia" by (simp add: ready_nvidia_eq)
  have b: "f_target frame_720p = Some (1280, 720)" and e: "f_begin frame_720p"
    by (simp_all add: frame_720p_def)
  have c: "(1280 :: u32) \<noteq> 0" and d: "(720 :: u32) \<noteq> 0" by simp_all
  have f: "m_provider ready_nvidia = NVIDIA_VIDEO_NOISE_REMOVAL"
    by (simp add: ready_nvidia_eq NVIDIA_VIDEO_NOISE_REMOVAL_def)
  have sz: "restrict_size (m_provider ready_nvidia) 1280 720 = Some (1280, 720)"
    using resize_1280_720 f by (simp add: restrict_size_def)
  have "fst (process_nvidia_noise_removal sdk_map_fails
               (capture_input frame_720p 1280 720
                  (emit Process_filter_begin (ready_nvidia\<lparr>m_size := (1280, 720)\<rparr>))))
          = Inl (Runtime_error ''Error'')"
    by (simp add: ready_nvidia_eq capture_input_def frame_720p_def process_defs
        sdk_present_def sdk_map_fails_def)
  then obtain w3 where "process_nvidia_noise_removal sdk_map_fails
               (capture_input frame_720p 1280 720
                  (emit Process_filter_begin (ready_nvidia\<lparr>m_size := (1280, 720)\<rparr>)))
          = (Inl (Runtime_error ''Error''), w3)"
    by (metis prod.collapse)
  with video_render_propagates_errors [OF a b c d e f, of sdk_map_fails] sz
  have "video_render sdk_map_fails frame_720p ready_nvidia = (Some (Runtime_error ''Error''), w3)
        \<and> Skip_video_filter \<notin> set (new_calls ready_nvidia w3)"
    by auto
  then show ?thesis using a b c d e f by simp
qed

text \<open>
  Claim C2 as stated fails: on the first frame of a ready instance, with a platform
  whose image mapping fails, \<^verbatim>\<open>video_render\<close> ends with the runtime error that process
  threw.
\<close>

theorem video_render_propagates_errors_counterexample:
  "fst (video_render sdk_map_fails frame_720p
          (exec registry [Update 1, Run_task sdk_present] (create registry None)))
     = Some (Runtime_error ''Error'')"
proof -
  have "fst (video_render sdk_map_fails frame_720p ready_nvidia) = Some (Runtime_error ''Error'')"
    by (simp add: ready_nvidia_eq render_defs process_defs restrict_size_def resize_1280_720
        NVIDIA_VIDEO_NOISE_REMOVAL_def frame_720p_def sdk_present_def sdk_map_fails_def)
  then show ?thesis by (simp add: ready_nvidia_def)
qed

section \<open>Provider switch\<close>


lemma load_result:
  assumes "load_nvidia_noise_removal env w = (r, w')"
  shows "(r = None \<longleftrightarrow> cuda_get env \<and> cv_get env \<and> vfx_get env) \<and>
         (r = None \<longrightarrow> m_nvcuda w' \<and> m_nvcvi w' \<and> m_nvvfx w') \<and>
         (r \<noteq> None \<longrightarrow> r = Some Sdk_unavailable) \<and>
         (m_nvcuda w \<longrightarrow> m_nvcuda w') \<and> (m_nvcvi w \<longrightarrow> m_nvcvi w') \<and> (m_nvvfx w \<longrightarrow> m_nvvfx w') \<and>
         m_provider w' = m_provider w \<and> m_provider_ready w' = m_provider_ready w \<and>
         m_provider_task w' = m_provider_task w \<and> pool w' = pool w \<and> calls w' = calls w \<and>
         m_nvidia_input w' = m_nvidia_input w \<and> m_nvidia_output w' = m_nvidia_output w \<and>
         m_nvidia_cvi_input w' = m_nvidia_cvi_input w \<and> m_nvidia_cvi_output w' = m_nvidia_cvi_output w \<and>
         m_output w' = m_output w \<and> m_input w' = m_input w \<and> m_size w' = m_size w"
  using assms by (auto simp add: load_nvidia_noise_removal_def Let_def split: if_splits)

lemma load_ctl:
  assumes "load_nvidia_noise_removal env w = (r, w')"
  shows "m_provider w' = m_provider w" "m_provider_ready w' = m_provider_ready w"
        "m_provider_task w' = m_provider_task w" "pool w' = pool w"
  using assms by (auto simp add: load_nvidia_noise_removal_def Let_def split: if_splits)

lemma unload_frame:
  assumes "unload_nvidia_noise_removal env w = (r, w')"
  shows "m_provider w' = m_provider w" "m_provider_ready w' = m_provider_ready w"
        "m_provider_task w' = m_provider_task w" "pool w' = pool w"
  using assms
  by (auto simp add: unload_nvidia_noise_removal_def unmap_and_dealloc_def emit_def Let_def
      split: if_splits prod.splits sum.splits)

lemma task_switch_provider_frame:
  assumes "task_switch_provider env p w = (r, w')"
  shows "m_provider_ready w' = (r = None) \<and> pool w' = pool w \<and>
         m_provider_task w' = m_provider_task w \<and>
         m_provider w' = (if r = None then p else m_provider w)"
proof -
  define w1 where "w1 = w\<lparr>m_provider_ready := False\<rparr>"
  obtain r1 w2 where l: "(if p = NVIDIA_VIDEO_NOISE_REMOVAL then load_nvidia_noise_removal env w1
             else (None, w1)) = (r1, w2)"
    by (cases "if p = NVIDIA_VIDEO_NOISE_REMOVAL then load_nvidia_noise_removal env w1 else (None, w1)")
  have c2: "m_provider w2 = m_provider w \<and> \<not> m_provider_ready w2 \<and>
      m_provider_task w2 = m_provider_task w \<and> pool w2 = pool w"
  proof (cases "p = NVIDIA_VIDEO_NOISE_REMOVAL")
    case True
    then have "load_nvidia_noise_removal env w1 = (r1, w2)" using l by simp
    from load_ctl [OF this] show ?thesis by (simp add: w1_def)
  next
    case False
    then have "w2 = w1" using l by simp
    then show ?thesis by (simp add: w1_def)
  qed
  show ?thesis
  proof (cases r1)
    case (Some e)
    then have "r = Some e" "w' = w2"
      using assms l by (simp_all add: task_switch_provider_def Let_def flip: w1_def)
    then show ?thesis using c2 by simp
  next
    case None
    obtain r3 w3 where u: "(if m_provider w2 = NVIDIA_VIDEO_NOISE_REMOVAL
           then unload_nvidia_noise_removal env w2 else (None, w2)) = (r3, w3)"
      by (cases "if m_provider w2 = NVIDIA_VIDEO_NOISE_REMOVAL
           then unload_nvidia_noise_removal env w2 else (None, w2)")
    have c3: "m_provider w3 = m_provider w \<and> \<not> m_provider_ready w3 \<and>
        m_provider_task w3 = m_provider_task w \<and> pool w3 = pool w"
    proof (cases "m_provider w2 = NVIDIA_VIDEO_NOISE_REMOVAL")
      case True
      then have "unload_nvidia_noise_removal env w2 = (r3, w3)" using u by simp
      from unload_frame [OF this] show ?thesis using c2 by simp
    next
      case False
      then have "w3 = w2" using u by simp
      then show ?thesis using c2 by simp
    qed
    have res: "(r, w') = (case r3 of Some e \<Rightarrow> (Some e, w3)
                  | None \<Rightarrow> (None, w3\<lparr>m_provider := p, m_provider_ready := True\<rparr>))"
      using assms l u None by (simp add: task_switch_provider_def Let_def flip: w1_def)
    show ?thesis
    proof (cases r3)
      case (Some e)
      then show ?thesis using res c3 by simp
    next
      case None
      then show ?thesis using res c3 by simp
    qed
  qed
qed





section \<open>The ready flag along histories\<close>

lemma draw_passes_calls:
  "draw_passes n sz w = w\<lparr>calls := calls w @ replicate n (Draw_sprite (fst sz) (snd sz))\<rparr>"
  by (induction n arbitrary: w) (simp_all add: emit_def replicate_app_Cons_same)

lemma video_render_running:
  assumes "m_provider_ready w" "f_target fr = Some (a, b)" "a \<noteq> 0" "b \<noteq> 0" "f_begin fr"
    and "restrict_size (m_provider w) a b = Some sz"
    and "(if m_provider w = NVIDIA_VIDEO_NOISE_REMOVAL
          then process_nvidia_noise_removal env
                 (capture_input fr a b (emit Process_filter_begin (w\<lparr>m_size := sz\<rparr>)))
          else (Inr None, capture_input fr a b (emit Process_filter_begin (w\<lparr>m_size := sz\<rparr>))))
         = (r3, w3)"
  shows "video_render env fr w =
    (case r3 of
       Inl e \<Rightarrow> (Some e, w3)
     | Inr None \<Rightarrow>
         (case denoise_provider_to_string (m_provider w3) of
            Inl e \<Rightarrow> (Some e, w3\<lparr>m_output := None\<rparr>)
          | Inr name \<Rightarrow>
              (None, emit Skip_video_filter
                 (emit (Log_error (''Provider '' @ name @ '' did not return a result.''))
                    (w3\<lparr>m_output := None\<rparr>))))
     | Inr (Some result) \<Rightarrow> (None, draw_result fr result (w3\<lparr>m_output := Some result\<rparr>)))"
proof -
  have m: "m_provider (capture_input fr a b (emit Process_filter_begin (w\<lparr>m_size := sz\<rparr>)))
      = m_provider w"
    by (simp add: capture_input_def emit_def)
  show ?thesis
    using assms(1-6) assms(7) [folded m]
    by (simp add: video_render_def Let_def obs_source_get_base_width_def
        obs_source_get_base_height_def split: sum.splits option.splits)
qed

lemma video_render_frame:
  assumes "video_render env fr w = (r, w')"
  shows "m_provider w' = m_provider w \<and> m_provider_ready w' = m_provider_ready w \<and>
         m_provider_task w' = m_provider_task w \<and> pool w' = pool w \<and>
         m_nvcuda w' = m_nvcuda w \<and> m_nvcvi w' = m_nvcvi w \<and> m_nvvfx w' = m_nvvfx w"
proof (cases "\<not> m_provider_ready w \<or> f_target fr = None \<or>
    obs_source_get_base_width (f_target fr) = 0 \<or> obs_source_get_base_height (f_target fr) = 0")
  case True
  then have "video_render env fr w = (None, emit Skip_video_filter w)"
    by (auto simp add: video_render_def obs_source_get_base_width_def
        obs_source_get_base_height_def Let_def)
  then show ?thesis using assms by (auto simp add: emit_def)
next
  case False
  then obtain a b where g: "m_provider_ready w" "f_target fr = Some (a, b)" "a \<noteq> 0" "b \<noteq> 0"
    by (auto simp add: obs_source_get_base_width_def obs_source_get_base_height_def)
  from restrict_size_defined [OF g(3,4)] obtain sz where
    sz: "restrict_size (m_provider w) a b = Some sz" by blast
  define w1 where "w1 = emit Process_filter_begin (w\<lparr>m_size := sz\<rparr>)"
  show ?thesis
  proof (cases "f_begin fr")
    case False
    then have "video_render env fr w = (None, emit Skip_video_filter w1)"
      using g sz
      by (simp add: video_render_def Let_def obs_source_get_base_width_def
          obs_source_get_base_height_def w1_def)
    then show ?thesis using assms by (auto simp add: emit_def w1_def)
  next
    case True
    define w2 where "w2 = capture_input fr a b w1"
    have k2: "m_provider w2 = m_provider w \<and> m_provider_ready w2 = m_provider_ready w \<and>
       m_provider_task w2 = m_provider_task w \<and> pool w2 = pool w \<and>
       m_nvcuda w2 = m_nvcuda w \<and> m_nvcvi w2 = m_nvcvi w \<and> m_nvvfx w2 = m_nvvfx w"
      by (simp add: w2_def w1_def capture_input_def emit_def)
    obtain r3 w3 where p: "(if m_provider w = NVIDIA_VIDEO_NOISE_REMOVAL
                  then process_nvidia_noise_removal env w2 else (Inr None, w2)) = (r3, w3)"
      by (cases "if m_provider w = NVIDIA_VIDEO_NOISE_REMOVAL
                  then process_nvidia_noise_removal env w2 else (Inr None, w2)")
    have k3: "m_provider w3 = m_provider w \<and> m_provider_ready w3 = m_provider_ready w \<and>
       m_provider_task w3 = m_provider_task w \<and> pool w3 = pool w \<and>
       m_nvcuda w3 = m_nvcuda w \<and> m_nvcvi w3 = m_nvcvi w \<and> m_nvvfx w3 = m_nvvfx w"
    proof (cases "m_provider w = NVIDIA_VIDEO_NOISE_REMOVAL")
      case True
      then have "process_nvidia_noise_removal env w2 = (r3, w3)" using p by simp
      from process_frame [OF this] show ?thesis using k2 by simp
    next
      case False
      then have "w3 = w2" using p by simp
      then show ?thesis using k2 by simp
    qed
    note run = video_render_running [OF g True sz p [unfolded w2_def w1_def]]
    show ?thesis
      using assms k3 unfolding run
      by (auto simp add: emit_def draw_result_def draw_passes_calls Let_def
          split: sum.splits option.splits)
  qed
qed

lemma update_keeps_consistent:
  assumes "pool_consistent w"
  shows "pool_consistent (update factory d w) \<and>
         m_provider (update factory d w) = m_provider w \<and>
         m_provider_ready (update factory d w) = m_provider_ready w \<and>
         m_nvcuda (update factory d w) = m_nvcuda w \<and> m_nvcvi (update factory d w) = m_nvcvi w \<and>
         m_nvvfx (update factory d w) = m_nvvfx w"
  using assms
  by (auto simp add: pool_consistent_def update_def switch_provider_def threadpool_pop_def
      threadpool_push_def Let_def split: option.splits list.splits)

lemma task_success_handles:
  assumes "task_switch_provider env NVIDIA_VIDEO_NOISE_REMOVAL w = (None, w')"
    and "m_provider w \<noteq> NVIDIA_VIDEO_NOISE_REMOVAL"
  shows "m_nvcuda w' \<and> m_nvcvi w' \<and> m_nvvfx w'"
proof -
  obtain r1 w1 where l: "load_nvidia_noise_removal env (w\<lparr>m_provider_ready := False\<rparr>) = (r1, w1)"
    by (cases "load_nvidia_noise_removal env (w\<lparr>m_provider_ready := False\<rparr>)")
  note lf = load_result [OF l]
  have p1: "m_provider w1 \<noteq> NVIDIA_VIDEO_NOISE_REMOVAL" using lf assms(2) by simp
  have "r1 = None \<and> w' = w1\<lparr>m_provider := NVIDIA_VIDEO_NOISE_REMOVAL, m_provider_ready := True\<rparr>"
    using assms(1) l p1 by (cases r1) (simp_all add: task_switch_provider_def Let_def)
  then show ?thesis using lf by simp
qed

lemma threadpool_run_keeps_invariant:
  assumes "pool_consistent w"
    and "m_provider_ready w \<and> m_provider w = NVIDIA_VIDEO_NOISE_REMOVAL \<longrightarrow> backend_loaded w"
  shows "pool_consistent (threadpool_run env w) \<and>
         (m_provider_ready (threadpool_run env w) \<and>
          m_provider (threadpool_run env w) = NVIDIA_VIDEO_NOISE_REMOVAL
            \<longrightarrow> backend_loaded (threadpool_run env w))"
proof (cases "pool w")
  case Nil
  then show ?thesis using assms by (simp add: threadpool_run_def)
next
  case (Cons t rest)
  obtain h p where t: "t = (h, p)" by (cases t)
  have rest: "rest = []" and ne: "p \<noteq> m_provider w"
    using assms(1) Cons t by (simp_all add: pool_consistent_def)
  define w0 where "w0 = w\<lparr>pool := []\<rparr>"
  obtain r w' where tk: "task_switch_provider env p w0 = (r, w')"
    by (cases "task_switch_provider env p w0")
  note fr = task_switch_provider_frame [OF tk]
  have run: "threadpool_run env w = (case r of Some e \<Rightarrow> emit (Log_task_failure e) w' | None \<Rightarrow> w')"
    using Cons t rest tk by (simp add: threadpool_run_def w0_def)
  show ?thesis
  proof (cases r)
    case (Some e)
    then show ?thesis using run fr by (simp add: emit_def pool_consistent_def w0_def)
  next
    case None
    have pc: "pool_consistent w'" using fr by (simp add: pool_consistent_def w0_def)
    have "backend_loaded w'" if "p = NVIDIA_VIDEO_NOISE_REMOVAL"
    proof -
      have "m_provider w0 \<noteq> NVIDIA_VIDEO_NOISE_REMOVAL" using ne that by (simp add: w0_def)
      from task_success_handles [OF tk [unfolded that None] this] show ?thesis
        using fr None that by (simp add: backend_loaded_def)
    qed
    then show ?thesis using run None pc fr by auto
  qed
qed

lemma exec_keeps_invariant:
  assumes "pool_consistent w"
    and "m_provider_ready w \<and> m_provider w = NVIDIA_VIDEO_NOISE_REMOVAL \<longrightarrow> backend_loaded w"
  shows "pool_consistent (exec factory evs w) \<and>
         (m_provider_ready (exec factory evs w) \<and>
          m_provider (exec factory evs w) = NVIDIA_VIDEO_NOISE_REMOVAL
            \<longrightarrow> backend_loaded (exec factory evs w))"
  using assms
proof (induction evs arbitrary: w)
  case Nil
  then show ?case by simp
next
  case (Cons ev evs)
  have "pool_consistent (step factory ev w) \<and>
         (m_provider_ready (step factory ev w) \<and>
          m_provider (step factory ev w) = NVIDIA_VIDEO_NOISE_REMOVAL
            \<longrightarrow> backend_loaded (step factory ev w))"
  proof (cases ev)
    case (Update d)
    from update_keeps_consistent [OF Cons.prems(1), of factory d] Cons.prems(2)
    show ?thesis unfolding Update by (simp add: backend_loaded_def)
  next
    case (Run_task env)
    from threadpool_run_keeps_invariant [OF Cons.prems] show ?thesis unfolding Run_task by simp
  next
    case (Render env fr)
    obtain r w' where v: "video_render env fr w = (r, w')" by (cases "video_render env fr w")
    from video_render_frame [OF v] Cons.prems show ?thesis
      unfolding Render by (auto simp add: v backend_loaded_def pool_consistent_def split: list.splits)
  qed
  then show ?case using Cons.IH by simp
qed

text \<open>
  For provider 1 the ready flag does stand for a loaded backend, in every state that a
  history of settings, task runs and frames reaches from a new instance.
\<close>

lemma ready_nvidia_is_loaded:
  assumes "m_provider_ready (exec factory evs (create factory data))"
    and "m_provider (exec factory evs (create factory data)) = NVIDIA_VIDEO_NOISE_REMOVAL"
  shows "backend_loaded (exec factory evs (create factory data))"
proof -
  have base: "pool_consistent (create factory None) \<and> \<not> m_provider_ready (create factory None)"
    by (simp add: create_def pool_consistent_def)
  have "pool_consistent (create factory data) \<and> \<not> m_provider_ready (create factory data)"
  proof (cases data)
    case None
    then show ?thesis using base by simp
  next
    case (Some d)
    have "create factory (Some d) = update factory d (create factory None)"
      by (simp add: create_def)
    then show ?thesis using update_keeps_consistent [of "create factory None" factory d] base Some
      by simp
  qed
  from exec_keeps_invariant [of "create factory data" factory evs] this assms show ?thesis
    by simp
qed

text \<open>
  Claim C6 says that a true ready flag implies a current backend that is loaded. The
  switch task loads nothing for a provider value without a backend and sets the flag
  all the same: with the setting 7 the instance is ready, holds provider 7, and no SDK
  handle was acquired.
\<close>

theorem ready_without_backend:
  "m_provider_ready (exec registry [Update 7, Run_task sdk_present] (create registry None)) \<and>
   m_provider (exec registry [Update 7, Run_task sdk_present] (create registry None)) = 7 \<and>
   \<not> backend_loaded (exec registry [Update 7, Run_task sdk_present] (create registry None)) \<and>
   \<not> m_nvcuda (exec registry [Update 7, Run_task sdk_present] (create registry None))"
  using ready_unlisted_eq
  by (simp add: ready_unlisted_def backend_loaded_def NVIDIA_VIDEO_NOISE_REMOVAL_def)

end
